theory Spec2Isabelle
  imports Complex_Main
begin

section \<open>DriveSafe UK backend: the report lifecycle and the proximity queries\<close>

text \<open>
  This theory embeds \<^verbatim>\<open>src/backend/server.py\<close>: the geo helpers
  (\<^verbatim>\<open>haversine_distance\<close>, \<^verbatim>\<open>get_bounding_box\<close>), the report submission
  endpoint \<^verbatim>\<open>create_report\<close> and the two proximity endpoints
  \<^verbatim>\<open>get_nearby_cameras\<close> and \<^verbatim>\<open>get_nearby_reports\<close>.

  Modelling conventions.
  \<^item> Python floats are IEEE doubles. The model does not fix their rounding: every float
    operation of the geo helpers is a field of an arithmetic \<open>fp\<close>, an argument of each
    function that computes with coordinates, and the theorems about the endpoints hold for
    every arithmetic, that of the machine included. \<^verbatim>\<open>math.sqrt\<close> raises
    \<^verbatim>\<open>ValueError\<close> on a negative argument; that is a branch of the model. The values are
    finite (no NaN, no infinity).
  \<^item> A \<^verbatim>\<open>datetime\<close> is the number of microseconds since the epoch, an \<^typ>\<open>int\<close>
    (microseconds are the resolution of Python's \<^verbatim>\<open>datetime\<close> and \<^verbatim>\<open>timedelta\<close>);
    the year range of \<^verbatim>\<open>datetime\<close> is not modelled. The minutes of a duration
    (\<^verbatim>\<open>total_seconds() / 60\<close>) are computed exactly: for durations of less than a century
    the rounding of doubles changes neither their truncation nor their rounding.
  \<^item> A MongoDB collection is the list of its documents in the order in which the
    collection enumerates them; \<^verbatim>\<open>find_one\<close> returns the first document that matches,
    \<^verbatim>\<open>find(...).to_list(n)\<close> the first \<open>n\<close> that match, \<^verbatim>\<open>insert_one\<close> appends,
    and \<^verbatim>\<open>update_one\<close> changes the first document that matches. The store keeps a date
    in whole milliseconds: a \<^verbatim>\<open>datetime\<close> that is written, in a document or in a query,
    loses its microseconds below the millisecond. The \<^verbatim>\<open>_id\<close> key that MongoDB adds is
    not modelled.
  \<^item> The values that the source draws from its environment are arguments of the model:
    the clock reading \<open>now\<close>, the fresh \<^verbatim>\<open>uuid4\<close> identifier and the second clock
    reading that fills \<^verbatim>\<open>created_at\<close> when the report object is built.
\<close>

subsection \<open>Models\<close>

type_synonym datetime = int

definition timedelta_minutes :: "int \<Rightarrow> int" where
  "timedelta_minutes m = m * 60000000"

definition total_seconds :: "int \<Rightarrow> real" where
  "total_seconds td = real_of_int td / 1000000"

record Coordinate =
  latitude :: real
  longitude :: real

text \<open>
  \<^verbatim>\<open>SpeedCamera\<close>. The fields \<^verbatim>\<open>id\<close>, \<^verbatim>\<open>is_active\<close> and \<^verbatim>\<open>created_at\<close> carry the
  prefix \<open>camera_\<close> here because \<^verbatim>\<open>CommunityReport\<close> has fields of the same names.
\<close>

record SpeedCamera = Coordinate +
  camera_id :: string
  camera_type :: string
  road_name :: "string option"
  speed_limit :: "int option"
  direction :: "string option"
  confidence :: int
  last_verified :: datetime
  camera_is_active :: bool
  camera_created_at :: datetime

record CommunityReportCreate = Coordinate +
  report_type :: string
  user_id :: string

text \<open>\<^verbatim>\<open>CommunityReport\<close>; its field \<^verbatim>\<open>id\<close> is \<open>id'\<close> here (\<open>id\<close> is the identity of HOL).\<close>

record CommunityReport = CommunityReportCreate +
  id' :: string
  confirmations :: int
  created_at :: datetime
  expires_at :: datetime
  is_active :: bool

record ReportResponse =
  success :: bool
  message :: string
  report_id :: "string option"

text \<open>\<^verbatim>\<open>AppSettings\<close>, without its \<^verbatim>\<open>id\<close>, which no decision reads.\<close>

record AppSettings =
  mobile_camera_ttl_minutes :: int
  police_check_ttl_minutes :: int
  duplicate_radius_meters :: int
  duplicate_time_window_minutes :: int
  rate_limit_minutes :: int

definition default_AppSettings :: AppSettings where
  "default_AppSettings =
     \<lparr>mobile_camera_ttl_minutes = 75, police_check_ttl_minutes = 52,
      duplicate_radius_meters = 200, duplicate_time_window_minutes = 15,
      rate_limit_minutes = 5\<rparr>"

text \<open>
  The three collections of \<^verbatim>\<open>db\<close>; \<^verbatim>\<open>db.settings\<close> holds at most one document
  (\<^verbatim>\<open>replace_one({}, ..., upsert=True)\<close> is its only writer).
\<close>

record Database =
  cameras :: "SpeedCamera list"
  reports :: "CommunityReport list"
  settings_doc :: "AppSettings option"

subsection \<open>The persistence operations the endpoints call\<close>

text \<open>
  A date as the store keeps it and returns it: the milliseconds of the \<^verbatim>\<open>datetime\<close>,
  the microseconds below them dropped.
\<close>

definition bson_datetime :: "datetime \<Rightarrow> datetime" where
  "bson_datetime t = (t div 1000) * 1000"

definition bson_document :: "CommunityReport \<Rightarrow> CommunityReport" where
  "bson_document doc =
     doc\<lparr>created_at := bson_datetime (created_at doc),
         expires_at := bson_datetime (expires_at doc)\<rparr>"

definition find_one :: "('a \<Rightarrow> bool) \<Rightarrow> 'a list \<Rightarrow> 'a option" where
  "find_one q docs = List.find q docs"

definition find_to_list :: "('a \<Rightarrow> bool) \<Rightarrow> nat \<Rightarrow> 'a list \<Rightarrow> 'a list" where
  "find_to_list q n docs = take n (filter q docs)"

text \<open>\<^verbatim>\<open>db.reports.insert_one\<close>\<close>

definition insert_one :: "CommunityReport \<Rightarrow> CommunityReport list \<Rightarrow> CommunityReport list" where
  "insert_one doc docs = docs @ [bson_document doc]"

text \<open>\<^verbatim>\<open>update_one({'id': i}, {'$inc': {'confirmations': 1}})\<close>\<close>

fun update_one_inc_confirmations :: "string \<Rightarrow> CommunityReport list \<Rightarrow> CommunityReport list" where
  "update_one_inc_confirmations i [] = []"
| "update_one_inc_confirmations i (d # ds) =
     (if id' d = i then d\<lparr>confirmations := confirmations d + 1\<rparr> # ds
      else d # update_one_inc_confirmations i ds)"

subsection \<open>Python primitives\<close>

datatype py_error = ValueError

text \<open>\<^verbatim>\<open>int(x)\<close> of a float: truncation toward zero.\<close>

definition py_int :: "real \<Rightarrow> int" where
  "py_int x = (if 0 \<le> x then \<lfloor>x\<rfloor> else \<lceil>x\<rceil>)"

text \<open>\<^verbatim>\<open>round(x)\<close> of a float: the nearest integer, a tie going to the even one.\<close>

definition py_round :: "real \<Rightarrow> int" where
  "py_round x =
     (let f = \<lfloor>x\<rfloor>; d = x - of_int f
      in if d < 1 / 2 then f else if 1 / 2 < d then f + 1
         else if even f then f else f + 1)"

text \<open>\<^verbatim>\<open>str(n)\<close> of an int, as an f-string renders it.\<close>

definition digit_char :: "nat \<Rightarrow> char" where
  "digit_char d = ''0123456789'' ! d"

function str_nat :: "nat \<Rightarrow> string" where
  "str_nat n = (if n < 10 then [digit_char n] else str_nat (n div 10) @ [digit_char (n mod 10)])"
  by pat_completeness auto
termination
  by (relation "measure (\<lambda>n. n)") auto

declare str_nat.simps [simp del]

definition str_int :: "int \<Rightarrow> string" where
  "str_int i = (if i < 0 then CHR ''-'' # str_nat (nat (- i)) else str_nat (nat i))"

text \<open>\<^verbatim>\<open>s.replace('_', ' ')\<close>\<close>

definition replace_underscore :: "string \<Rightarrow> string" where
  "replace_underscore s = map (\<lambda>c. if c = CHR ''_'' then CHR '' '' else c) s"

text \<open>\<^verbatim>\<open>math.radians\<close> and \<^verbatim>\<open>math.atan2\<close> (signed zeros are not distinguished).\<close>

definition radians :: "real \<Rightarrow> real" where
  "radians x = x * (pi / 180)"

definition atan2 :: "real \<Rightarrow> real \<Rightarrow> real" where
  "atan2 y x =
     (if 0 < x then arctan (y / x)
      else if x < 0 then (if 0 \<le> y then arctan (y / x) + pi else arctan (y / x) - pi)
      else if 0 < y then pi / 2
      else if y < 0 then - (pi / 2)
      else 0)"


text \<open>
  The float operations of the geo helpers: \<^verbatim>\<open>+\<close>, \<^verbatim>\<open>-\<close>, \<^verbatim>\<open>*\<close>, \<^verbatim>\<open>/\<close>, \<^verbatim>\<open>** 2\<close> and
  \<^verbatim>\<open>radians\<close>, \<^verbatim>\<open>sin\<close>, \<^verbatim>\<open>cos\<close>, \<^verbatim>\<open>sqrt\<close>, \<^verbatim>\<open>atan2\<close> of \<^verbatim>\<open>math\<close>. A double is the
  real number it stands for.
\<close>

record float_ops =
  f_add :: "real \<Rightarrow> real \<Rightarrow> real"
  f_sub :: "real \<Rightarrow> real \<Rightarrow> real"
  f_mul :: "real \<Rightarrow> real \<Rightarrow> real"
  f_div :: "real \<Rightarrow> real \<Rightarrow> real"
  f_pow2 :: "real \<Rightarrow> real"
  f_radians :: "real \<Rightarrow> real"
  f_sin :: "real \<Rightarrow> real"
  f_cos :: "real \<Rightarrow> real"
  f_sqrt :: "real \<Rightarrow> real"
  f_atan2 :: "real \<Rightarrow> real \<Rightarrow> real"

text \<open>The arithmetic of the reals: every operation without rounding.\<close>

definition exact :: float_ops where
  "exact =
     \<lparr>f_add = (+), f_sub = (-), f_mul = (*), f_div = (/), f_pow2 = (\<lambda>x. x\<^sup>2),
      f_radians = radians, f_sin = sin, f_cos = cos, f_sqrt = sqrt, f_atan2 = atan2\<rparr>"

text \<open>\<^verbatim>\<open>math.sqrt\<close>\<close>

definition py_sqrt :: "float_ops \<Rightarrow> real \<Rightarrow> py_error + real" where
  "py_sqrt fp x = (if x < 0 then Inl ValueError else Inr (f_sqrt fp x))"

subsection \<open>Helper functions\<close>

text \<open>
  \<^verbatim>\<open>haversine_distance\<close>; its local \<^verbatim>\<open>a\<close> is a definition of its own, so that the
  proofs can name it. The call raises when \<^verbatim>\<open>a\<close> or \<^verbatim>\<open>1 - a\<close> is negative; in doubles
  \<^verbatim>\<open>a\<close> can exceed 1 by rounding when the two points are nearly antipodal.
\<close>

definition haversine_a :: "float_ops \<Rightarrow> real \<Rightarrow> real \<Rightarrow> real \<Rightarrow> real \<Rightarrow> real" where
  "haversine_a fp lat1 lon1 lat2 lon2 =
     (let phi1 = f_radians fp lat1;
          phi2 = f_radians fp lat2;
          delta_phi = f_radians fp (f_sub fp lat2 lat1);
          delta_lambda = f_radians fp (f_sub fp lon2 lon1)
      in f_add fp (f_pow2 fp (f_sin fp (f_div fp delta_phi 2)))
           (f_mul fp (f_mul fp (f_cos fp phi1) (f_cos fp phi2))
              (f_pow2 fp (f_sin fp (f_div fp delta_lambda 2)))))"

definition haversine_distance ::
  "float_ops \<Rightarrow> real \<Rightarrow> real \<Rightarrow> real \<Rightarrow> real \<Rightarrow> py_error + real" where
  "haversine_distance fp lat1 lon1 lat2 lon2 =
     (let R = 6371000;
          a = haversine_a fp lat1 lon1 lat2 lon2
      in case py_sqrt fp a of
           Inl e \<Rightarrow> Inl e
         | Inr root_a \<Rightarrow>
             (case py_sqrt fp (f_sub fp 1 a) of
                Inl e \<Rightarrow> Inl e
              | Inr root_1a \<Rightarrow>
                  (let c = f_mul fp 2 (f_atan2 fp root_a root_1a)
                   in Inr (f_mul fp R c))))"

record BoundingBox =
  min_lat :: real
  max_lat :: real
  min_lon :: real
  max_lon :: real

text \<open>
  \<^verbatim>\<open>get_bounding_box\<close>. The divisor \<^verbatim>\<open>111.0 * cos(radians(lat))\<close> is not zero in doubles
  (no double is an odd multiple of \<open>pi / 2\<close>; \<^verbatim>\<open>cos(radians(90.0))\<close> is \<open>6.1e-17\<close>), so
  the division does not raise and the function has no error branch. An arithmetic whose
  cosine vanishes, as \<open>exact\<close> does at the poles, is not that of the machine there.
\<close>

definition get_bounding_box :: "float_ops \<Rightarrow> real \<Rightarrow> real \<Rightarrow> real \<Rightarrow> BoundingBox" where
  "get_bounding_box fp lat lon radius_km =
     (let lat_delta = f_div fp radius_km 111.0;
          lon_delta = f_div fp radius_km (f_mul fp 111.0 (f_cos fp (f_radians fp lat)))
      in \<lparr>min_lat = f_sub fp lat lat_delta, max_lat = f_add fp lat lat_delta,
          min_lon = f_sub fp lon lon_delta, max_lon = f_add fp lon lon_delta\<rparr>)"

definition get_settings :: "Database \<Rightarrow> AppSettings" where
  "get_settings db = (case settings_doc db of Some doc \<Rightarrow> doc | None \<Rightarrow> default_AppSettings)"

subsection \<open>\<^verbatim>\<open>create_report\<close>\<close>

text \<open>
  The two queries of \<^verbatim>\<open>create_report\<close>. Their date bounds reach the store in whole
  milliseconds.
\<close>

definition recent_query :: "CommunityReportCreate \<Rightarrow> datetime \<Rightarrow> AppSettings \<Rightarrow> CommunityReport \<Rightarrow> bool" where
  "recent_query report now settings d \<longleftrightarrow>
     user_id d = user_id report \<and> report_type d = report_type report \<and>
     bson_datetime (now - timedelta_minutes (rate_limit_minutes settings)) \<le> created_at d"

definition existing_query :: "CommunityReportCreate \<Rightarrow> datetime \<Rightarrow> AppSettings \<Rightarrow> CommunityReport \<Rightarrow> bool" where
  "existing_query report now settings d \<longleftrightarrow>
     report_type d = report_type report \<and> is_active d \<and> bson_datetime now < expires_at d \<and>
     bson_datetime (now - timedelta_minutes (duplicate_time_window_minutes settings))
       \<le> created_at d"

definition wait_time :: "AppSettings \<Rightarrow> datetime \<Rightarrow> CommunityReport \<Rightarrow> int" where
  "wait_time settings now recent_report =
     rate_limit_minutes settings - py_int (total_seconds (now - created_at recent_report) / 60)"

definition wait_message :: "int \<Rightarrow> CommunityReportCreate \<Rightarrow> string" where
  "wait_message w report =
     ''Please wait '' @ str_int w @ '' more minutes before reporting another ''
       @ replace_underscore (report_type report)"

definition confirmed_message :: "int \<Rightarrow> string" where
  "confirmed_message n = ''Confirmed! '' @ str_int n @ '' users have reported this.''"

text \<open>
  The loop over \<^verbatim>\<open>existing_reports\<close>: the first one within the radius is confirmed and the
  endpoint returns; \<open>None\<close> when the loop runs to its end. A \<^verbatim>\<open>ValueError\<close> of
  \<^verbatim>\<open>haversine_distance\<close> ends the request; nothing has been written by then.
\<close>

fun merge_loop ::
  "float_ops \<Rightarrow> Database \<Rightarrow> AppSettings \<Rightarrow> CommunityReportCreate \<Rightarrow> CommunityReport list
     \<Rightarrow> py_error + (Database \<times> ReportResponse) option" where
  "merge_loop fp db settings report [] = Inr None"
| "merge_loop fp db settings report (existing # rest) =
     (case haversine_distance fp (latitude report) (longitude report)
             (latitude existing) (longitude existing) of
        Inl e \<Rightarrow> Inl e
      | Inr distance \<Rightarrow>
          if distance \<le> real_of_int (duplicate_radius_meters settings) then
            Inr (Some (db\<lparr>reports := update_one_inc_confirmations (id' existing) (reports db)\<rparr>,
                       \<lparr>success = True,
                        message = confirmed_message (confirmations existing + 1),
                        report_id = Some (id' existing)\<rparr>))
          else merge_loop fp db settings report rest)"

definition ttl_minutes :: "AppSettings \<Rightarrow> CommunityReportCreate \<Rightarrow> int" where
  "ttl_minutes settings report =
     (if report_type report = ''mobile_camera'' then mobile_camera_ttl_minutes settings
      else police_check_ttl_minutes settings)"

definition report_obj :: "CommunityReportCreate \<Rightarrow> string \<Rightarrow> datetime \<Rightarrow> datetime \<Rightarrow> CommunityReport" where
  "report_obj report new_id created expires =
     \<lparr>latitude = latitude report, longitude = longitude report,
      report_type = report_type report, user_id = user_id report,
      id' = new_id, confirmations = 1, created_at = created,
      expires_at = expires, is_active = True\<rparr>"

definition create_report ::
  "float_ops \<Rightarrow> Database \<Rightarrow> datetime \<Rightarrow> string \<Rightarrow> datetime \<Rightarrow> CommunityReportCreate
     \<Rightarrow> py_error + Database \<times> ReportResponse" where
  "create_report fp db now new_id created report =
     (let settings = get_settings db in
      case find_one (recent_query report now settings) (reports db) of
        Some recent_report \<Rightarrow>
          Inr (db, \<lparr>success = False,
                    message = wait_message (wait_time settings now recent_report) report,
                    report_id = None\<rparr>)
      | None \<Rightarrow>
          (let existing_reports = find_to_list (existing_query report now settings) 100 (reports db)
           in case merge_loop fp db settings report existing_reports of
                Inl e \<Rightarrow> Inl e
              | Inr (Some merged) \<Rightarrow> Inr merged
              | Inr None \<Rightarrow>
                  (let obj = report_obj report new_id created
                               (now + timedelta_minutes (ttl_minutes settings report))
                   in Inr (db\<lparr>reports := insert_one obj (reports db)\<rparr>,
                           \<lparr>success = True, message = ''Reported. Thanks!'',
                            report_id = Some (id' obj)\<rparr>))))"

subsection \<open>The proximity endpoints\<close>

text \<open>
  A document of a result list: the stored document with the key \<^verbatim>\<open>distance_meters\<close>
  added and, for a report, \<^verbatim>\<open>expires_in_minutes\<close>.
\<close>

record 'a nearby =
  entity :: 'a
  distance_meters :: int

record 'a nearby_report = "'a nearby" +
  expires_in_minutes :: int

definition in_bbox :: "BoundingBox \<Rightarrow> real \<Rightarrow> real \<Rightarrow> bool" where
  "in_bbox bbox la lo \<longleftrightarrow>
     min_lat bbox \<le> la \<and> la \<le> max_lat bbox \<and> min_lon bbox \<le> lo \<and> lo \<le> max_lon bbox"

fun cameras_loop ::
  "float_ops \<Rightarrow> real \<Rightarrow> real \<Rightarrow> real \<Rightarrow> SpeedCamera list \<Rightarrow> py_error + SpeedCamera nearby list" where
  "cameras_loop fp lat lon radius_km [] = Inr []"
| "cameras_loop fp lat lon radius_km (cam # rest) =
     (case haversine_distance fp lat lon (latitude cam) (longitude cam) of
        Inl e \<Rightarrow> Inl e
      | Inr distance \<Rightarrow>
          (case cameras_loop fp lat lon radius_km rest of
             Inl e \<Rightarrow> Inl e
           | Inr result \<Rightarrow>
               if distance \<le> f_mul fp radius_km 1000 then
                 Inr (\<lparr>entity = cam, distance_meters = py_round distance\<rparr> # result)
               else Inr result))"

definition get_nearby_cameras ::
  "float_ops \<Rightarrow> Database \<Rightarrow> real \<Rightarrow> real \<Rightarrow> real \<Rightarrow> py_error + SpeedCamera nearby list" where
  "get_nearby_cameras fp db lat lon radius_km =
     (let bbox = get_bounding_box fp lat lon radius_km;
          cams = find_to_list
                 (\<lambda>c. in_bbox bbox (latitude c) (longitude c) \<and> camera_is_active c)
                 1000 (cameras db)
      in case cameras_loop fp lat lon radius_km cams of
           Inl e \<Rightarrow> Inl e
         | Inr result \<Rightarrow> Inr (sort_key distance_meters result))"

fun reports_loop ::
  "float_ops \<Rightarrow> datetime \<Rightarrow> real \<Rightarrow> real \<Rightarrow> real \<Rightarrow> CommunityReport list
     \<Rightarrow> py_error + CommunityReport nearby_report list" where
  "reports_loop fp now lat lon radius_km [] = Inr []"
| "reports_loop fp now lat lon radius_km (report # rest) =
     (case haversine_distance fp lat lon (latitude report) (longitude report) of
        Inl e \<Rightarrow> Inl e
      | Inr distance \<Rightarrow>
          (case reports_loop fp now lat lon radius_km rest of
             Inl e \<Rightarrow> Inl e
           | Inr result \<Rightarrow>
               if distance \<le> f_mul fp radius_km 1000 then
                 (let remaining = total_seconds (expires_at report - now) / 60
                  in Inr (\<lparr>entity = report, distance_meters = py_round distance,
                           expires_in_minutes = py_round remaining\<rparr> # result))
               else Inr result))"

definition get_nearby_reports ::
  "float_ops \<Rightarrow> Database \<Rightarrow> datetime \<Rightarrow> real \<Rightarrow> real \<Rightarrow> real
     \<Rightarrow> py_error + CommunityReport nearby_report list" where
  "get_nearby_reports fp db now lat lon radius_km =
     (let bbox = get_bounding_box fp lat lon radius_km;
          reps = find_to_list
                 (\<lambda>r. in_bbox bbox (latitude r) (longitude r) \<and> is_active r \<and>
                      bson_datetime now < expires_at r)
                 500 (reports db)
      in case reports_loop fp now lat lon radius_km reps of
           Inl e \<Rightarrow> Inl e
         | Inr result \<Rightarrow> Inr (sort_key distance_meters result))"

subsection \<open>Notions the statements use\<close>

text \<open>
  The test of the merge loop on a stored report: \<^verbatim>\<open>haversine_distance\<close> returns a
  distance, and it is within the duplicate radius, or beyond it.
\<close>

definition within_radius ::
  "float_ops \<Rightarrow> AppSettings \<Rightarrow> CommunityReportCreate \<Rightarrow> CommunityReport \<Rightarrow> bool" where
  "within_radius fp settings report e =
     (case haversine_distance fp (latitude report) (longitude report) (latitude e) (longitude e) of
        Inl err \<Rightarrow> False
      | Inr distance \<Rightarrow> distance \<le> real_of_int (duplicate_radius_meters settings))"

definition beyond_radius ::
  "float_ops \<Rightarrow> AppSettings \<Rightarrow> CommunityReportCreate \<Rightarrow> CommunityReport \<Rightarrow> bool" where
  "beyond_radius fp settings report e =
     (case haversine_distance fp (latitude report) (longitude report) (latitude e) (longitude e) of
        Inl err \<Rightarrow> False
      | Inr distance \<Rightarrow> real_of_int (duplicate_radius_meters settings) < distance)"

text \<open>
  Whole minutes from \<open>created\<close> to \<open>now\<close> in integer arithmetic, truncated toward zero.
\<close>

definition elapsed_minutes :: "datetime \<Rightarrow> datetime \<Rightarrow> int" where
  "elapsed_minutes now created =
     (if created \<le> now then (now - created) div 60000000
      else - ((created - now) div 60000000))"

text \<open>The candidates of the duplicate check: what \<^verbatim>\<open>to_list(100)\<close> returns.\<close>

definition candidates :: "Database \<Rightarrow> datetime \<Rightarrow> CommunityReportCreate \<Rightarrow> CommunityReport list" where
  "candidates db now report =
     find_to_list (existing_query report now (get_settings db)) 100 (reports db)"

text \<open>
  The dates of the stored reports are whole milliseconds. The store returns no other date;
  \<^verbatim>\<open>create_report\<close> keeps it so.
\<close>

definition dates_in_ms :: "CommunityReport list \<Rightarrow> bool" where
  "dates_in_ms docs \<longleftrightarrow>
     (\<forall>d\<in>set docs. created_at d mod 1000 = 0 \<and> expires_at d mod 1000 = 0)"

subsection \<open>Example data\<close>

text \<open>
  Reports on the equator. A stored example report expires 75 minutes after its creation.
  \<open>example_db\<close> has no settings document, so the defaults apply; \<open>example_tuned_db\<close>
  has one.
\<close>

definition example_payload :: "string \<Rightarrow> string \<Rightarrow> real \<Rightarrow> CommunityReportCreate" where
  "example_payload u t lon =
     \<lparr>latitude = 0, longitude = lon, report_type = t, user_id = u\<rparr>"

definition example_stored :: "string \<Rightarrow> string \<Rightarrow> string \<Rightarrow> real \<Rightarrow> datetime \<Rightarrow> CommunityReport" where
  "example_stored i u t lon created =
     \<lparr>latitude = 0, longitude = lon, report_type = t, user_id = u,
      id' = i, confirmations = 1, created_at = created,
      expires_at = created + 4500000000, is_active = True\<rparr>"

definition example_db :: "CommunityReport list \<Rightarrow> Database" where
  "example_db docs = \<lparr>cameras = [], reports = docs, settings_doc = None\<rparr>"

definition example_settings :: AppSettings where
  "example_settings =
     \<lparr>mobile_camera_ttl_minutes = 90, police_check_ttl_minutes = 45,
      duplicate_radius_meters = 300, duplicate_time_window_minutes = 10,
      rate_limit_minutes = 3\<rparr>"

definition example_tuned_db :: "CommunityReport list \<Rightarrow> Database" where
  "example_tuned_db docs = \<lparr>cameras = [], reports = docs, settings_doc = Some example_settings\<rparr>"

definition example_camera :: "string \<Rightarrow> real \<Rightarrow> SpeedCamera" where
  "example_camera i lon =
     \<lparr>latitude = 0, longitude = lon, camera_id = i, camera_type = ''fixed'',
      road_name = None, speed_limit = None, direction = None, confidence = 100,
      last_verified = 0, camera_is_active = True, camera_created_at = 0\<rparr>"

text \<open>
  A store of 101 candidates for a report at longitude 0: a hundred at longitude 90 first, a
  quarter of the equator away, then one at longitude 0.
\<close>

definition example_far :: "nat \<Rightarrow> CommunityReport" where
  "example_far n = example_stored (''far'' @ str_nat n) ''B'' ''mobile_camera'' 90 0"

definition example_near :: CommunityReport where
  "example_near = example_stored ''near'' ''C'' ''mobile_camera'' 0 0"

definition example_crowded_db :: Database where
  "example_crowded_db = example_db (map example_far [0..<100] @ [example_near])"


text \<open>A camera and a stored report at the north pole.\<close>

definition example_polar_camera :: "string \<Rightarrow> SpeedCamera" where
  "example_polar_camera i = (example_camera i 0)\<lparr>latitude := 90\<rparr>"

definition example_polar :: "string \<Rightarrow> datetime \<Rightarrow> CommunityReport" where
  "example_polar i created = (example_stored i ''A'' ''mobile_camera'' 0 created)\<lparr>latitude := 90\<rparr>"

text \<open>
  A payload at latitude 8, longitude 0, and a stored report at its antipode. In doubles
  \<^verbatim>\<open>haversine_distance\<close> computes \<open>a = 1.0000000000000002\<close> for the two.
\<close>

definition antipode_payload :: CommunityReportCreate where
  "antipode_payload =
     \<lparr>latitude = 8, longitude = 0, report_type = ''mobile_camera'', user_id = ''A''\<rparr>"

definition antipode_stored :: CommunityReport where
  "antipode_stored =
     \<lparr>latitude = - 8, longitude = 180, report_type = ''mobile_camera'', user_id = ''B'',
      id' = ''r1'', confirmations = 1, created_at = 0, expires_at = 4500000000,
      is_active = True\<rparr>"

text \<open>
  Two more arithmetics. \<open>rounding_up\<close> is exact but for its addition, which errs upward by
  one part in \<open>2 ^ 52\<close>, within the accuracy of doubles. \<open>exact_off_poles\<close> is exact but
  for a cosine that, like that of doubles, does not vanish.
\<close>

definition rounding_up :: float_ops where
  "rounding_up = exact\<lparr>f_add := (\<lambda>x y. (x + y) * (1 + 1 / 2 ^ 52))\<rparr>"

definition exact_off_poles :: float_ops where
  "exact_off_poles = exact\<lparr>f_cos := (\<lambda>x. if cos x = 0 then 1 / 2 ^ 54 else cos x)\<rparr>"

section \<open>Properties\<close>

subsection \<open>The store operations\<close>

lemma find_one_None_iff: "find_one q docs = None \<longleftrightarrow> (\<forall>d\<in>set docs. \<not> q d)"
  by (auto simp: find_one_def find_None_iff)

lemma find_one_SomeD: "find_one q docs = Some d \<Longrightarrow> q d \<and> d \<in> set docs"
  by (auto simp: find_one_def find_Some_iff)

lemma find_one_exists: "\<exists>d\<in>set docs. q d \<Longrightarrow> \<exists>d. find_one q docs = Some d"
  by (cases "find_one q docs") (auto simp: find_one_None_iff)

lemma find_one_append_last:
  "\<forall>d\<in>set xs. \<not> P d \<Longrightarrow> P x \<Longrightarrow> find_one P (xs @ [x]) = Some x"
  by (induction xs) (auto simp: find_one_def)

lemma find_to_list_setD: "d \<in> set (find_to_list q n docs) \<Longrightarrow> d \<in> set docs \<and> q d"
  by (auto simp: find_to_list_def dest: in_set_takeD)

lemma candidates_setD:
  "d \<in> set (candidates db now report) \<Longrightarrow>
     d \<in> set (reports db) \<and> existing_query report now (get_settings db) d"
  unfolding candidates_def by (rule find_to_list_setD)

lemma length_update_one_inc [simp]:
  "length (update_one_inc_confirmations i docs) = length docs"
  by (induction docs) auto

lemma ids_update_one_inc [simp]:
  "map id' (update_one_inc_confirmations i docs) = map id' docs"
  by (induction docs) auto

lemma update_one_inc_distinct:
  assumes "distinct (map id' docs)" and "m \<in> set docs"
  shows "update_one_inc_confirmations (id' m) docs =
           map (\<lambda>d. if d = m then d\<lparr>confirmations := confirmations d + 1\<rparr> else d) docs"
  using assms
proof (induction docs)
  case Nil
  then show ?case by simp
next
  case (Cons d ds)
  show ?case
  proof (cases "id' d = id' m")
    case True
    with Cons.prems have dm: "d = m" and notin: "m \<notin> set ds"
      by (auto simp: image_iff)
    from notin have "map (\<lambda>d. if d = m then d\<lparr>confirmations := confirmations d + 1\<rparr> else d) ds = ds"
      by (induction ds) auto
    with True dm show ?thesis by simp
  next
    case False
    with Cons show ?thesis by auto
  qed
qed

lemma find_update_one_inc:
  "List.find (\<lambda>d. id' d = i) (update_one_inc_confirmations i docs) =
     map_option (\<lambda>d. d\<lparr>confirmations := confirmations d + 1\<rparr>) (List.find (\<lambda>d. id' d = i) docs)"
  by (induction docs) auto

lemma find_by_id_distinct:
  "distinct (map id' docs) \<Longrightarrow> m \<in> set docs \<Longrightarrow> List.find (\<lambda>d. id' d = id' m) docs = Some m"
  by (induction docs) (auto simp: image_iff)

lemma dates_update_one_inc [simp]:
  "dates_in_ms (update_one_inc_confirmations i docs) = dates_in_ms docs"
  by (induction docs) (auto simp: dates_in_ms_def)

lemma get_settings_reports_update [simp]:
  "get_settings (db\<lparr>reports := docs\<rparr>) = get_settings db"
  by (simp add: get_settings_def)

subsection \<open>Dates in whole milliseconds\<close>

lemma bson_datetime_le: "bson_datetime t \<le> t"
  by (simp add: bson_datetime_def)

lemma bson_datetime_mono: "s \<le> t \<Longrightarrow> bson_datetime s \<le> bson_datetime t"
  by (simp add: bson_datetime_def zdiv_mono1)

lemma bson_datetime_mod [simp]: "bson_datetime t mod 1000 = 0"
  by (simp add: bson_datetime_def)

lemma bson_datetime_whole: "t mod 1000 = 0 \<Longrightarrow> bson_datetime t = t"
  by (auto simp: bson_datetime_def)

lemma bson_datetime_less_whole:
  assumes "e mod 1000 = 0" and "bson_datetime now < e"
  shows "now < e"
proof -
  from assms(1) obtain k where e: "e = 1000 * k" by (auto elim: dvdE simp: mod_eq_0_iff_dvd)
  from assms(2) have "now div 1000 < k" by (simp add: bson_datetime_def e)
  then have "now div 1000 + 1 \<le> k" by simp
  then have "1000 * (now div 1000) + 1000 \<le> 1000 * k" by simp
  moreover have "now < 1000 * (now div 1000) + 1000"
    using pos_mod_bound [of 1000 now] mult_div_mod_eq [of 1000 now] by linarith
  ultimately show ?thesis by (simp add: e)
qed

subsection \<open>Elapsed minutes\<close>

text \<open>
  The source computes the elapsed minutes as \<^verbatim>\<open>int(total_seconds() / 60)\<close>; that is the
  integer division of the microseconds by 60000000, truncated toward zero.
\<close>

lemma py_int_minutes:
  assumes "0 \<le> d"
  shows "py_int (total_seconds d / 60) = d div 60000000"
proof -
  have "total_seconds d / 60 = real_of_int d / real_of_int 60000000"
    by (simp add: total_seconds_def)
  then have "\<lfloor>total_seconds d / 60\<rfloor> = d div 60000000"
    by (simp only: floor_divide_of_int_eq)
  moreover have "0 \<le> total_seconds d / 60"
    using assms by (simp add: total_seconds_def)
  ultimately show ?thesis by (simp add: py_int_def)
qed

lemma py_int_minutes_neg:
  assumes "d < 0"
  shows "py_int (total_seconds d / 60) = - ((- d) div 60000000)"
proof -
  have e: "total_seconds d / 60 = - (real_of_int (- d) / real_of_int 60000000)"
    by (simp add: total_seconds_def)
  have "\<lceil>total_seconds d / 60\<rceil> = - \<lfloor>real_of_int (- d) / real_of_int 60000000\<rfloor>"
    unfolding e by (simp only: ceiling_minus minus_minus)
  then have "\<lceil>total_seconds d / 60\<rceil> = - ((- d) div 60000000)"
    by (simp only: floor_divide_of_int_eq)
  moreover have "total_seconds d / 60 < 0"
    using assms by (simp add: total_seconds_def)
  ultimately show ?thesis by (simp add: py_int_def)
qed

lemma wait_time_elapsed:
  "wait_time settings now recent =
     rate_limit_minutes settings - elapsed_minutes now (created_at recent)"
proof (cases "created_at recent \<le> now")
  case True
  then show ?thesis
    by (simp add: wait_time_def elapsed_minutes_def py_int_minutes)
next
  case False
  then have "now - created_at recent < 0" by simp
  from py_int_minutes_neg [OF this] False show ?thesis
    by (simp add: wait_time_def elapsed_minutes_def)
qed

subsection \<open>The outcomes of \<^verbatim>\<open>create_report\<close>\<close>

text \<open>
  The merge loop passes the candidates beyond the radius, returns at the first one within
  it and raises at one whose distance cannot be computed. With it the endpoint has four
  outcomes: rate-limited, raised, merged, created.
\<close>

lemma haversine_domain_error:
  "haversine_distance fp lat1 lon1 lat2 lon2 = Inl ValueError \<longleftrightarrow>
     haversine_a fp lat1 lon1 lat2 lon2 < 0 \<or> f_sub fp 1 (haversine_a fp lat1 lon1 lat2 lon2) < 0"
  by (auto simp: haversine_distance_def py_sqrt_def Let_def)

lemma merge_loop_within:
  "within_radius fp settings report m \<Longrightarrow>
     merge_loop fp db settings report (m # rest) =
       Inr (Some (db\<lparr>reports := update_one_inc_confirmations (id' m) (reports db)\<rparr>,
                  \<lparr>success = True, message = confirmed_message (confirmations m + 1),
                   report_id = Some (id' m)\<rparr>))"
  by (auto simp: within_radius_def split: sum.splits)

lemma merge_loop_raises:
  "haversine_distance fp (latitude report) (longitude report) (latitude c) (longitude c) = Inl err \<Longrightarrow>
     merge_loop fp db settings report (c # rest) = Inl err"
  by simp

lemma merge_loop_step:
  "beyond_radius fp settings report e \<Longrightarrow>
     merge_loop fp db settings report (e # rest) = merge_loop fp db settings report rest"
  by (auto simp: beyond_radius_def split: sum.splits)

lemma candidate_cases:
  obtains (within) "within_radius fp settings report e"
  | (beyond) "beyond_radius fp settings report e"
  | (raises) err where
      "haversine_distance fp (latitude report) (longitude report) (latitude e) (longitude e)
         = Inl err"
  by (cases "haversine_distance fp (latitude report) (longitude report) (latitude e) (longitude e)")
    (auto simp: within_radius_def beyond_radius_def not_le [symmetric])

declare merge_loop.simps(2) [simp del]

lemma merge_loop_beyond:
  "\<forall>e\<in>set pre. beyond_radius fp settings report e \<Longrightarrow>
     merge_loop fp db settings report (pre @ rest) = merge_loop fp db settings report rest"
  by (induction pre) (simp_all add: merge_loop_step)

lemma merge_loop_all_beyond:
  "\<forall>e\<in>set es. beyond_radius fp settings report e \<Longrightarrow>
     merge_loop fp db settings report es = Inr None"
  using merge_loop_beyond [of es fp settings report db "[]"] by simp

lemma merge_loop_NoneD:
  "merge_loop fp db settings report es = Inr None \<Longrightarrow>
     \<forall>e\<in>set es. beyond_radius fp settings report e"
proof (induction es)
  case Nil
  then show ?case by simp
next
  case (Cons e es)
  show ?case
  proof (cases rule: candidate_cases [of fp settings report e])
    case within
    with Cons.prems show ?thesis by (simp add: merge_loop_within)
  next
    case beyond
    with Cons show ?thesis by (simp add: merge_loop_step)
  next
    case (raises err)
    with Cons.prems show ?thesis by (simp add: merge_loop_raises)
  qed
qed

lemma merge_loop_SomeD:
  "merge_loop fp db settings report es = Inr (Some out) \<Longrightarrow>
     \<exists>pre m rest. es = pre @ m # rest \<and> (\<forall>e\<in>set pre. beyond_radius fp settings report e) \<and>
       within_radius fp settings report m \<and>
       out = (db\<lparr>reports := update_one_inc_confirmations (id' m) (reports db)\<rparr>,
              \<lparr>success = True, message = confirmed_message (confirmations m + 1),
               report_id = Some (id' m)\<rparr>)"
proof (induction es)
  case Nil
  then show ?case by simp
next
  case (Cons e es)
  show ?case
  proof (cases rule: candidate_cases [of fp settings report e])
    case within
    with Cons.prems have "out = (db\<lparr>reports := update_one_inc_confirmations (id' e) (reports db)\<rparr>,
              \<lparr>success = True, message = confirmed_message (confirmations e + 1),
               report_id = Some (id' e)\<rparr>)"
      by (simp add: merge_loop_within)
    with within have "e # es = [] @ e # es \<and> (\<forall>x\<in>set []. beyond_radius fp settings report x) \<and>
       within_radius fp settings report e \<and>
       out = (db\<lparr>reports := update_one_inc_confirmations (id' e) (reports db)\<rparr>,
              \<lparr>success = True, message = confirmed_message (confirmations e + 1),
               report_id = Some (id' e)\<rparr>)"
      by simp
    then show ?thesis by blast
  next
    case beyond
    with Cons.prems have r: "merge_loop fp db settings report es = Inr (Some out)"
      by (simp add: merge_loop_step)
    from Cons.IH [OF r] obtain pre m rest where
      "es = pre @ m # rest" "\<forall>x\<in>set pre. beyond_radius fp settings report x"
      "within_radius fp settings report m"
      "out = (db\<lparr>reports := update_one_inc_confirmations (id' m) (reports db)\<rparr>,
              \<lparr>success = True, message = confirmed_message (confirmations m + 1),
               report_id = Some (id' m)\<rparr>)"
      by blast
    with beyond have "e # es = (e # pre) @ m # rest \<and>
       (\<forall>x\<in>set (e # pre). beyond_radius fp settings report x) \<and>
       within_radius fp settings report m \<and>
       out = (db\<lparr>reports := update_one_inc_confirmations (id' m) (reports db)\<rparr>,
              \<lparr>success = True, message = confirmed_message (confirmations m + 1),
               report_id = Some (id' m)\<rparr>)"
      by simp
    then show ?thesis by blast
  next
    case (raises err)
    with Cons.prems show ?thesis by (simp add: merge_loop_raises)
  qed
qed

lemma create_report_limited:
  "find_one (recent_query report now (get_settings db)) (reports db) = Some recent \<Longrightarrow>
     create_report fp db now new_id created report =
       Inr (db, \<lparr>success = False,
                 message = wait_message (wait_time (get_settings db) now recent) report,
                 report_id = None\<rparr>)"
  by (simp add: create_report_def)

lemma create_report_merged:
  assumes "\<forall>d\<in>set (reports db). \<not> recent_query report now (get_settings db) d"
    and "candidates db now report = pre @ m # rest"
    and "\<forall>e\<in>set pre. beyond_radius fp (get_settings db) report e"
    and "within_radius fp (get_settings db) report m"
  shows "create_report fp db now new_id created report =
       Inr (db\<lparr>reports := update_one_inc_confirmations (id' m) (reports db)\<rparr>,
            \<lparr>success = True, message = confirmed_message (confirmations m + 1),
             report_id = Some (id' m)\<rparr>)"
proof -
  from assms(1) have "find_one (recent_query report now (get_settings db)) (reports db) = None"
    by (simp add: find_one_None_iff)
  moreover from assms(2-4) have "merge_loop fp db (get_settings db) report
      (find_to_list (existing_query report now (get_settings db)) 100 (reports db)) =
       Inr (Some (db\<lparr>reports := update_one_inc_confirmations (id' m) (reports db)\<rparr>,
                  \<lparr>success = True, message = confirmed_message (confirmations m + 1),
                   report_id = Some (id' m)\<rparr>))"
    by (simp add: candidates_def [symmetric] merge_loop_beyond merge_loop_within)
  ultimately show ?thesis by (simp add: create_report_def)
qed

lemma create_report_created:
  assumes "\<forall>d\<in>set (reports db). \<not> recent_query report now (get_settings db) d"
    and "\<forall>e\<in>set (candidates db now report). beyond_radius fp (get_settings db) report e"
  shows "create_report fp db now new_id created report =
       Inr (db\<lparr>reports := reports db @
              [bson_document (report_obj report new_id created
                 (now + timedelta_minutes (ttl_minutes (get_settings db) report)))]\<rparr>,
            \<lparr>success = True, message = ''Reported. Thanks!'', report_id = Some new_id\<rparr>)"
proof -
  from assms(1) have "find_one (recent_query report now (get_settings db)) (reports db) = None"
    by (simp add: find_one_None_iff)
  moreover from assms(2) have "merge_loop fp db (get_settings db) report
      (find_to_list (existing_query report now (get_settings db)) 100 (reports db)) = Inr None"
    by (simp add: candidates_def [symmetric] merge_loop_all_beyond)
  ultimately show ?thesis
    by (simp add: create_report_def insert_one_def report_obj_def Let_def)
qed

lemma create_report_raises:
  assumes "\<forall>d\<in>set (reports db). \<not> recent_query report now (get_settings db) d"
    and "candidates db now report = pre @ c # rest"
    and "\<forall>e\<in>set pre. beyond_radius fp (get_settings db) report e"
    and "haversine_distance fp (latitude report) (longitude report) (latitude c) (longitude c)
           = Inl err"
  shows "create_report fp db now new_id created report = Inl err"
proof -
  from assms(1) have "find_one (recent_query report now (get_settings db)) (reports db) = None"
    by (simp add: find_one_None_iff)
  moreover from assms(2-4) have "merge_loop fp db (get_settings db) report
      (find_to_list (existing_query report now (get_settings db)) 100 (reports db)) = Inl err"
    by (simp add: candidates_def [symmetric] merge_loop_beyond merge_loop_raises)
  ultimately show ?thesis by (simp add: create_report_def)
qed

lemma create_report_cases [consumes 1, case_names limited merged created]:
  assumes "create_report fp db now new_id created report = Inr out"
  obtains
    recent where
      "find_one (recent_query report now (get_settings db)) (reports db) = Some recent"
      "out = (db, \<lparr>success = False,
                   message = wait_message (wait_time (get_settings db) now recent) report,
                   report_id = None\<rparr>)"
  | pre m rest where
      "\<forall>d\<in>set (reports db). \<not> recent_query report now (get_settings db) d"
      "candidates db now report = pre @ m # rest"
      "\<forall>e\<in>set pre. beyond_radius fp (get_settings db) report e"
      "within_radius fp (get_settings db) report m"
      "out = (db\<lparr>reports := update_one_inc_confirmations (id' m) (reports db)\<rparr>,
              \<lparr>success = True, message = confirmed_message (confirmations m + 1),
               report_id = Some (id' m)\<rparr>)"
  | "\<forall>d\<in>set (reports db). \<not> recent_query report now (get_settings db) d"
    "\<forall>e\<in>set (candidates db now report). beyond_radius fp (get_settings db) report e"
    "out = (db\<lparr>reports := reports db @
              [bson_document (report_obj report new_id created
                 (now + timedelta_minutes (ttl_minutes (get_settings db) report)))]\<rparr>,
            \<lparr>success = True, message = ''Reported. Thanks!'', report_id = Some new_id\<rparr>)"
proof (cases "find_one (recent_query report now (get_settings db)) (reports db)")
  case (Some recent)
  with assms create_report_limited [OF Some, where fp = fp and new_id = new_id
      and created = created] that(1)
  show thesis by simp
next
  case None
  then have n: "\<forall>d\<in>set (reports db). \<not> recent_query report now (get_settings db) d"
    by (simp add: find_one_None_iff)
  show thesis
  proof (cases "merge_loop fp db (get_settings db) report (candidates db now report)")
    case (Inl err)
    with None assms show thesis
      by (simp add: create_report_def candidates_def)
  next
    case (Inr res)
    show thesis
    proof (cases res)
      case None
      with Inr have "merge_loop fp db (get_settings db) report (candidates db now report) = Inr None"
        by simp
      from merge_loop_NoneD [OF this]
      have b: "\<forall>e\<in>set (candidates db now report). beyond_radius fp (get_settings db) report e" .
      from create_report_created [OF n b, where new_id = new_id and created = created]
        assms that(3) [OF n b]
      show thesis by simp
    next
      case (Some merged)
      with Inr have "merge_loop fp db (get_settings db) report (candidates db now report)
          = Inr (Some merged)"
        by simp
      from merge_loop_SomeD [OF this] obtain pre m rest where
        d: "candidates db now report = pre @ m # rest"
        and b: "\<forall>e\<in>set pre. beyond_radius fp (get_settings db) report e"
        and w: "within_radius fp (get_settings db) report m"
        by blast
      from create_report_merged [OF n d b w, where new_id = new_id and created = created]
        assms that(2) [OF n d b w]
      show thesis by simp
    qed
  qed
qed

lemma create_report_ids_distinct:
  assumes "create_report fp db now new_id created report = Inr (db', resp)"
    and "distinct (map id' (reports db))" and "new_id \<notin> id' ` set (reports db)"
  shows "distinct (map id' (reports db'))"
  using assms(1)
  by (cases rule: create_report_cases)
    (use assms(2,3) in \<open>auto simp: report_obj_def bson_document_def\<close>)

lemma create_report_dates_in_ms:
  assumes "create_report fp db now new_id created report = Inr (db', resp)"
    and "dates_in_ms (reports db)"
  shows "dates_in_ms (reports db')"
  using assms(1)
proof (cases rule: create_report_cases)
  case (limited recent)
  with assms(2) show ?thesis by simp
next
  case (merged pre m rest)
  with assms(2) show ?thesis by simp
next
  case created
  with assms(2) show ?thesis
    by (simp add: dates_in_ms_def bson_document_def)
qed

subsection \<open>The loops of the proximity endpoints\<close>

lemma cameras_loop_sound:
  "cameras_loop fp lat lon radius_km cams = Inr result \<Longrightarrow> e \<in> set result \<Longrightarrow>
     entity e \<in> set cams \<and>
     (\<exists>d. haversine_distance fp lat lon (latitude (entity e)) (longitude (entity e)) = Inr d \<and>
          d \<le> f_mul fp radius_km 1000 \<and> distance_meters e = py_round d)"
proof (induction cams arbitrary: result)
  case Nil
  then show ?case by simp
next
  case (Cons cam rest)
  from Cons.prems(1) obtain d res where
    d: "haversine_distance fp lat lon (latitude cam) (longitude cam) = Inr d"
    and r: "cameras_loop fp lat lon radius_km rest = Inr res"
    and result: "result = (if d \<le> f_mul fp radius_km 1000
        then \<lparr>entity = cam, distance_meters = py_round d\<rparr> # res else res)"
    by (auto split: sum.splits if_splits)
  show ?case
  proof (cases "e \<in> set res")
    case True
    from Cons.IH [OF r True] show ?thesis by auto
  next
    case False
    with Cons.prems(2) result have "d \<le> f_mul fp radius_km 1000"
      and "e = \<lparr>entity = cam, distance_meters = py_round d\<rparr>"
      by (auto split: if_splits)
    with d show ?thesis by simp
  qed
qed

lemma reports_loop_sound:
  "reports_loop fp now lat lon radius_km reps = Inr result \<Longrightarrow> e \<in> set result \<Longrightarrow>
     entity e \<in> set reps \<and>
     (\<exists>d. haversine_distance fp lat lon (latitude (entity e)) (longitude (entity e)) = Inr d \<and>
          d \<le> f_mul fp radius_km 1000 \<and> distance_meters e = py_round d) \<and>
     expires_in_minutes e = py_round (total_seconds (expires_at (entity e) - now) / 60)"
proof (induction reps arbitrary: result)
  case Nil
  then show ?case by simp
next
  case (Cons rep rest)
  from Cons.prems(1) obtain d res where
    d: "haversine_distance fp lat lon (latitude rep) (longitude rep) = Inr d"
    and r: "reports_loop fp now lat lon radius_km rest = Inr res"
    and result: "result = (if d \<le> f_mul fp radius_km 1000
        then \<lparr>entity = rep, distance_meters = py_round d,
              expires_in_minutes = py_round (total_seconds (expires_at rep - now) / 60)\<rparr> # res
        else res)"
    by (auto simp: Let_def split: sum.splits if_splits)
  show ?case
  proof (cases "e \<in> set res")
    case True
    from Cons.IH [OF r True] show ?thesis by auto
  next
    case False
    with Cons.prems(2) result have "d \<le> f_mul fp radius_km 1000"
      and "e = \<lparr>entity = rep, distance_meters = py_round d,
              expires_in_minutes = py_round (total_seconds (expires_at rep - now) / 60)\<rparr>"
      by (auto split: if_splits)
    with d show ?thesis by simp
  qed
qed

lemma get_nearby_cameras_InrD:
  assumes "get_nearby_cameras fp db lat lon radius_km = Inr result"
  shows "\<exists>loop. cameras_loop fp lat lon radius_km
             (find_to_list (\<lambda>c. in_bbox (get_bounding_box fp lat lon radius_km)
                   (latitude c) (longitude c) \<and> camera_is_active c) 1000 (cameras db)) = Inr loop \<and>
           result = sort_key distance_meters loop"
  using assms by (auto simp: get_nearby_cameras_def Let_def split: sum.splits)

lemma get_nearby_reports_InrD:
  assumes "get_nearby_reports fp db now lat lon radius_km = Inr result"
  shows "\<exists>loop. reports_loop fp now lat lon radius_km
             (find_to_list (\<lambda>r. in_bbox (get_bounding_box fp lat lon radius_km)
                   (latitude r) (longitude r) \<and> is_active r \<and> bson_datetime now < expires_at r)
                500 (reports db)) = Inr loop \<and>
           result = sort_key distance_meters loop"
  using assms by (auto simp: get_nearby_reports_def Let_def split: sum.splits)

subsection \<open>The exact arithmetic and the example data, evaluated\<close>

lemma exact_ops [simp]:
  "f_add exact = (+)" "f_sub exact = (-)" "f_mul exact = (*)" "f_div exact = (/)"
  "f_pow2 exact = (\<lambda>x. x\<^sup>2)" "f_radians exact = radians" "f_sin exact = sin"
  "f_cos exact = cos" "f_sqrt exact = sqrt" "f_atan2 exact = atan2"
  by (simp_all add: exact_def)

lemma haversine_a_exact:
  "haversine_a exact lat1 lon1 lat2 lon2 =
     (sin (radians (lat2 - lat1) / 2))\<^sup>2 +
     cos (radians lat1) * cos (radians lat2) * (sin (radians (lon2 - lon1) / 2))\<^sup>2"
  by (simp add: haversine_a_def)

lemma haversine_exact:
  "haversine_distance exact lat1 lon1 lat2 lon2 =
     (if haversine_a exact lat1 lon1 lat2 lon2 < 0 \<or> 1 < haversine_a exact lat1 lon1 lat2 lon2
      then Inl ValueError
      else Inr (6371000 * (2 * atan2 (sqrt (haversine_a exact lat1 lon1 lat2 lon2))
                                   (sqrt (1 - haversine_a exact lat1 lon1 lat2 lon2)))))"
  by (simp add: haversine_distance_def py_sqrt_def Let_def)

lemma haversine_same_point: "haversine_distance exact lat lon lat lon = Inr 0"
  by (simp add: haversine_exact haversine_a_exact radians_def atan2_def)

lemma haversine_quarter: "haversine_distance exact 0 0 0 90 = Inr (6371000 * (pi / 2))"
proof -
  have "(sin (pi / 4))\<^sup>2 = 1 / 2"
    by (simp add: sin_45 power2_eq_square)
  then have a: "haversine_a exact 0 0 0 90 = 1 / 2"
    by (simp add: haversine_a_exact radians_def)
  have "atan2 (sqrt (1 / 2)) (sqrt (1 - 1 / 2)) = pi / 4"
    by (simp add: atan2_def arctan_one)
  then show ?thesis
    by (simp add: haversine_exact a)
qed

lemmas example_defs = example_payload_def example_stored_def example_db_def
  get_settings_def default_AppSettings_def

lemma example_get_settings [simp]:
  "get_settings (example_db docs) = default_AppSettings"
  "get_settings (example_tuned_db docs) = example_settings"
  by (simp_all add: get_settings_def example_db_def example_tuned_db_def)

lemma example_settings_doc [simp]:
  "settings_doc (example_db docs) = None"
  "settings_doc (example_tuned_db docs) = Some example_settings"
  by (simp_all add: example_db_def example_tuned_db_def)

lemma example_reports [simp]:
  "reports (example_db docs) = docs" "reports (example_tuned_db docs) = docs"
  by (simp_all add: example_db_def example_tuned_db_def)

lemma example_db_update [simp]:
  "(example_db docs)\<lparr>reports := docs'\<rparr> = example_db docs'"
  "(example_tuned_db docs)\<lparr>reports := docs'\<rparr> = example_tuned_db docs'"
  by (simp_all add: example_db_def example_tuned_db_def)

lemma example_stored_confirmations [simp]: "confirmations (example_stored i u t lon c) = 1"
  by (simp add: example_stored_def)

lemma quarter_beyond:
  "beyond_radius exact default_AppSettings (example_payload u t 0) (example_stored i u' t' 90 c)"
  "beyond_radius exact example_settings (example_payload u t 0) (example_stored i u' t' 90 c)"
proof -
  have "300 < 6371000 * (pi / 2)" using pi_ge_two by simp
  then show
    "beyond_radius exact default_AppSettings (example_payload u t 0) (example_stored i u' t' 90 c)"
    "beyond_radius exact example_settings (example_payload u t 0) (example_stored i u' t' 90 c)"
    by (simp_all add: beyond_radius_def example_payload_def example_stored_def
        default_AppSettings_def example_settings_def haversine_quarter)
qed

lemma same_point_within:
  "within_radius exact default_AppSettings (example_payload u t 0) (example_stored i u' t' 0 c)"
  by (simp add: within_radius_def example_payload_def example_stored_def
      default_AppSettings_def haversine_same_point)

lemma bounding_box_equator:
  "get_bounding_box exact 0 0 5 =
     \<lparr>min_lat = - (5 / 111), max_lat = 5 / 111, min_lon = - (5 / 111), max_lon = 5 / 111\<rparr>"
  by (simp add: get_bounding_box_def radians_def Let_def)

lemma nearby_cameras_same_point:
  "get_nearby_cameras exact
     \<lparr>cameras = [example_camera ''c1'' 0, example_camera ''c2'' 0], reports = [],
      settings_doc = None\<rparr> 0 0 5 =
   Inr [\<lparr>entity = example_camera ''c1'' 0, distance_meters = 0\<rparr>,
        \<lparr>entity = example_camera ''c2'' 0, distance_meters = 0\<rparr>]"
  by (simp add: get_nearby_cameras_def bounding_box_equator find_to_list_def in_bbox_def
      example_camera_def haversine_same_point py_round_def Let_def)

lemma crowded_candidates:
  "filter (existing_query (example_payload ''A'' ''mobile_camera'' 0) 60000000
       (get_settings example_crowded_db)) (reports example_crowded_db) =
     map example_far [0..<100] @ [example_near]"
  by (simp add: filter_id_conv existing_query_def example_far_def example_near_def
      example_payload_def example_stored_def default_AppSettings_def timedelta_minutes_def
      example_crowded_db_def bson_datetime_def)

lemma crowded_first_candidates:
  "candidates example_crowded_db 60000000 (example_payload ''A'' ''mobile_camera'' 0) =
     map example_far [0..<100]"
  unfolding candidates_def find_to_list_def crowded_candidates by simp

lemma crowded_no_limit:
  "\<forall>d\<in>set (reports example_crowded_db).
     \<not> recent_query (example_payload ''A'' ''mobile_camera'' 0) 60000000
         (get_settings example_crowded_db) d"
  by (simp add: recent_query_def example_far_def example_near_def example_payload_def
      example_stored_def example_crowded_db_def)

lemma crowded_first_100:
  "\<forall>e\<in>set (map example_far [0..<100]).
     beyond_radius exact (get_settings example_crowded_db)
       (example_payload ''A'' ''mobile_camera'' 0) e"
  by (simp add: example_far_def example_crowded_db_def quarter_beyond)

text \<open>Queries centred on the north pole, in the arithmetic whose cosine does not vanish.\<close>

lemma exact_off_poles_ops:
  "f_add exact_off_poles = (+)" "f_sub exact_off_poles = (-)"
  "f_mul exact_off_poles = (*)" "f_div exact_off_poles = (/)"
  "f_pow2 exact_off_poles = (\<lambda>x. x\<^sup>2)" "f_radians exact_off_poles = radians"
  "f_sin exact_off_poles = sin" "f_sqrt exact_off_poles = sqrt"
  "f_atan2 exact_off_poles = atan2"
  "f_cos exact_off_poles = (\<lambda>x. if cos x = 0 then 1 / 2 ^ 54 else cos x)"
  by (simp_all add: exact_off_poles_def exact_def)

lemma haversine_at_pole: "haversine_distance exact_off_poles 90 0 90 0 = Inr 0"
  by (simp add: haversine_distance_def haversine_a_def py_sqrt_def exact_off_poles_ops
      radians_def atan2_def)

lemma bounding_box_pole:
  "get_bounding_box exact_off_poles 90 0 5 =
     \<lparr>min_lat = 90 - 5 / 111, max_lat = 90 + 5 / 111,
      min_lon = - (5 * 2 ^ 54 / 111), max_lon = 5 * 2 ^ 54 / 111\<rparr>"
  by (simp add: get_bounding_box_def exact_off_poles_ops radians_def Let_def)

lemma nearby_cameras_at_pole:
  "get_nearby_cameras exact_off_poles
     \<lparr>cameras = [example_polar_camera ''c1'', example_polar_camera ''c2''], reports = [],
      settings_doc = None\<rparr> 90 0 5 =
   Inr [\<lparr>entity = example_polar_camera ''c1'', distance_meters = 0\<rparr>,
        \<lparr>entity = example_polar_camera ''c2'', distance_meters = 0\<rparr>]"
  by (simp add: get_nearby_cameras_def bounding_box_pole find_to_list_def in_bbox_def
      example_polar_camera_def example_camera_def haversine_at_pole py_round_def
      exact_off_poles_ops Let_def)

lemma nearby_reports_at_pole:
  "get_nearby_reports exact_off_poles
     (example_db [example_polar ''r1'' 0, example_polar ''r2'' 600000000])
     4500000000 90 0 5 =
     Inr [\<lparr>entity = example_polar ''r2'' 600000000,
           distance_meters = 0, expires_in_minutes = 10\<rparr>]"
  by (simp add: get_nearby_reports_def find_to_list_def bounding_box_pole in_bbox_def
      haversine_at_pole example_polar_def example_stored_def py_round_def total_seconds_def
      bson_datetime_def exact_off_poles_ops Let_def)

subsection \<open>Rate limiting\<close>

text \<open>
  Claim C2. When the store holds a report of the same submitter and the same report type
  whose creation time is not older than \<open>rate_limit_minutes\<close> before \<open>now\<close>,
  \<^verbatim>\<open>find_one\<close> returns the first such report, the call answers \<open>success = False\<close>
  with the wait time \<open>rate_limit_minutes - elapsed\<close>, where \<open>elapsed\<close> is the number of
  whole minutes from that report's creation to \<open>now\<close>, truncated (integer division of
  the microseconds by 60000000), and the database is returned unchanged. No distance is
  computed on this path, so the call does not raise.
\<close>

theorem rate_limited_wait:
  assumes "\<exists>d\<in>set (reports db). recent_query report now (get_settings db) d"
  shows "\<exists>recent.
           find_one (recent_query report now (get_settings db)) (reports db) = Some recent \<and>
           recent \<in> set (reports db) \<and>
           recent_query report now (get_settings db) recent \<and>
           create_report fp db now new_id created report =
             Inr (db, \<lparr>success = False,
                       message = wait_message
                         (rate_limit_minutes (get_settings db)
                            - elapsed_minutes now (created_at recent)) report,
                       report_id = None\<rparr>)"
proof -
  from find_one_exists [OF assms] obtain recent
    where f: "find_one (recent_query report now (get_settings db)) (reports db) = Some recent"
    by blast
  from find_one_SomeD [OF f] have "recent \<in> set (reports db)"
    and "recent_query report now (get_settings db) recent" by simp_all
  moreover from f have "create_report fp db now new_id created report =
      Inr (db, \<lparr>success = False,
                message = wait_message
                  (rate_limit_minutes (get_settings db) - elapsed_minutes now (created_at recent))
                  report,
                report_id = None\<rparr>)"
    by (simp add: create_report_limited wait_time_elapsed)
  ultimately show ?thesis using f by blast
qed

text \<open>
  An instance: 119 seconds after the prior report the elapsed time is 1 minute (rounding to
  the nearest minute would give 2), so the wait is 4 of the 5 minutes.
\<close>

theorem rate_limited_wait_witness:
  "(\<exists>d\<in>set (reports (example_db [example_stored ''r1'' ''A'' ''mobile_camera'' 0 0])).
      recent_query (example_payload ''A'' ''mobile_camera'' 0) 119000000
        (get_settings (example_db [example_stored ''r1'' ''A'' ''mobile_camera'' 0 0])) d) \<and>
   create_report exact (example_db [example_stored ''r1'' ''A'' ''mobile_camera'' 0 0]) 119000000
       ''r2'' 119000005 (example_payload ''A'' ''mobile_camera'' 0) =
     Inr (example_db [example_stored ''r1'' ''A'' ''mobile_camera'' 0 0],
          \<lparr>success = False,
           message = ''Please wait 4 more minutes before reporting another mobile camera'',
           report_id = None\<rparr>)"
  using rate_limited_wait [of "example_db [example_stored ''r1'' ''A'' ''mobile_camera'' 0 0]"
      "example_payload ''A'' ''mobile_camera'' 0" 119000000 exact "''r2''" 119000005]
  by (simp add: example_payload_def example_stored_def default_AppSettings_def recent_query_def
      find_one_def timedelta_minutes_def bson_datetime_def
      elapsed_minutes_def wait_message_def str_int_def str_nat.simps digit_char_def
      replace_underscore_def)

text \<open>
  Claim C5, as the code has it. Two calls of the same submitter and report type, with the
  settings unchanged: when the first call stored a new report (the store grew by one), the
  second call is not earlier than the first, and the time from that report's stored
  \<open>created_at\<close>, the clock reading in whole milliseconds, to the second call is at least
  0 and less than \<open>rate_limit_minutes\<close>, the second call answers \<open>success = False\<close>,
  leaves the database as it is, and its wait time is at least 1 and at most
  \<open>rate_limit_minutes\<close>.
\<close>

theorem second_report_waits:
  assumes first: "create_report fp db now1 id1 created1 report1 = Inr (db1, resp1)"
    and inserted: "length (reports db1) = Suc (length (reports db))"
    and user: "user_id report2 = user_id report1"
    and type: "report_type report2 = report_type report1"
    and later: "now1 \<le> now2"
    and elapsed: "0 \<le> now2 - bson_datetime created1"
      "now2 - bson_datetime created1 < 60000000 * rate_limit_minutes (get_settings db)"
  shows "create_report fp db1 now2 id2 created2 report2 =
           Inr (db1, \<lparr>success = False,
                      message = wait_message
                        (rate_limit_minutes (get_settings db1)
                           - (now2 - bson_datetime created1) div 60000000)
                        report2,
                      report_id = None\<rparr>) \<and>
         1 \<le> rate_limit_minutes (get_settings db1) - (now2 - bson_datetime created1) div 60000000 \<and>
         rate_limit_minutes (get_settings db1) - (now2 - bson_datetime created1) div 60000000
           \<le> rate_limit_minutes (get_settings db1)"
  using first
proof (cases rule: create_report_cases)
  case (limited recent)
  with inserted show ?thesis by simp
next
  case (merged pre m rest)
  with inserted show ?thesis by simp
next
  case created
  let ?s = "get_settings db"
  let ?doc = "bson_document (report_obj report1 id1 created1
      (now1 + timedelta_minutes (ttl_minutes ?s report1)))"
  from created(3) have db1: "db1 = db\<lparr>reports := reports db @ [?doc]\<rparr>"
    by simp
  then have s1: "get_settings db1 = ?s" by simp
  have old: "\<forall>d\<in>set (reports db). \<not> recent_query report2 now2 ?s d"
  proof
    fix d assume d: "d \<in> set (reports db)"
    show "\<not> recent_query report2 now2 ?s d"
    proof
      assume r: "recent_query report2 now2 ?s d"
      from later have "bson_datetime (now1 - timedelta_minutes (rate_limit_minutes ?s))
          \<le> bson_datetime (now2 - timedelta_minutes (rate_limit_minutes ?s))"
        by (intro bson_datetime_mono) simp
      with r user type have "recent_query report1 now1 ?s d"
        by (simp add: recent_query_def)
      with created(1) d show False by blast
    qed
  qed
  have c: "created_at ?doc = bson_datetime created1"
    by (simp add: report_obj_def bson_document_def)
  have "bson_datetime (now2 - timedelta_minutes (rate_limit_minutes ?s))
      \<le> now2 - timedelta_minutes (rate_limit_minutes ?s)"
    by (rule bson_datetime_le)
  also have "\<dots> \<le> bson_datetime created1"
    using elapsed(2) by (simp add: timedelta_minutes_def)
  finally have new: "recent_query report2 now2 ?s ?doc"
    using user type by (simp add: recent_query_def c) (simp add: report_obj_def bson_document_def)
  from find_one_append_last [of "reports db" "recent_query report2 now2 ?s" ?doc, OF old new]
  have f: "find_one (recent_query report2 now2 (get_settings db1)) (reports db1) = Some ?doc"
    by (simp add: db1)
  have w: "wait_time (get_settings db1) now2 ?doc =
      rate_limit_minutes ?s - (now2 - bson_datetime created1) div 60000000"
    using elapsed(1) by (simp add: wait_time_elapsed s1 c elapsed_minutes_def)
  have r: "create_report fp db1 now2 id2 created2 report2 =
      Inr (db1, \<lparr>success = False,
                 message = wait_message
                   (rate_limit_minutes ?s - (now2 - bson_datetime created1) div 60000000) report2,
                 report_id = None\<rparr>)"
    using create_report_limited [OF f, where fp = fp and new_id = id2 and created = created2]
    by (simp only: w)
  have lo: "0 \<le> (now2 - bson_datetime created1) div 60000000"
    using elapsed(1) by (simp add: pos_imp_zdiv_nonneg_iff)
  have hi: "(now2 - bson_datetime created1) div 60000000 < rate_limit_minutes ?s"
    using elapsed(2) by (simp add: div_less_iff_less_mult mult.commute)
  from r lo hi s1 show ?thesis by simp
qed

text \<open>
  An instance: the first report is created at a clock reading of 999 microseconds, stored
  as 0; the second call comes one microsecond before five minutes after 0.
\<close>

theorem second_report_waits_witness:
  "create_report exact
     (fst (projr (create_report exact (example_db []) 0 ''r1'' 999
             (example_payload ''A'' ''mobile_camera'' 0))))
     299999999 ''r2'' 300000000 (example_payload ''A'' ''mobile_camera'' 90) =
   Inr (fst (projr (create_report exact (example_db []) 0 ''r1'' 999
               (example_payload ''A'' ''mobile_camera'' 0))),
        \<lparr>success = False,
         message = ''Please wait 1 more minutes before reporting another mobile camera'',
         report_id = None\<rparr>)"
proof -
  let ?p = "example_payload ''A'' ''mobile_camera'' 0"
  let ?q = "example_payload ''A'' ''mobile_camera'' 90"
  let ?first = "create_report exact (example_db []) 0 ''r1'' 999 ?p"
  let ?db1 = "example_db [bson_document (report_obj ?p ''r1'' 999 4500000000)]"
  let ?resp1 = "\<lparr>success = True, message = ''Reported. Thanks!'', report_id = Some ''r1''\<rparr>"
  have r: "?first = Inr (?db1, ?resp1)"
    using create_report_created [of "example_db []" ?p 0 exact "''r1''" 999]
    by (simp add: candidates_def find_to_list_def ttl_minutes_def timedelta_minutes_def
        example_payload_def default_AppSettings_def)
  have h2: "length (reports ?db1) = Suc (length (reports (example_db [])))"
    by simp
  have h3: "user_id ?q = user_id ?p" "report_type ?q = report_type ?p"
    by (simp_all add: example_payload_def)
  have h4: "(0::int) \<le> 299999999" "0 \<le> 299999999 - bson_datetime 999"
    "299999999 - bson_datetime 999 < 60000000 * rate_limit_minutes (get_settings (example_db []))"
    by (simp_all add: default_AppSettings_def bson_datetime_def)
  from second_report_waits [OF r h2 h3 h4, of "''r2''" 300000000]
  show ?thesis
    unfolding r
    by (simp add: default_AppSettings_def wait_message_def str_int_def str_nat.simps
        digit_char_def replace_underscore_def example_payload_def bson_datetime_def)
qed

text \<open>
  A first call that merges stores nothing under its submitter, so it does not rate-limit
  the next one: here the same submitter confirms a stored report twice within a second,
  and the second call is accepted.
\<close>

theorem repeated_confirmation_not_rate_limited:
  "create_report exact
     (fst (projr (create_report exact (example_db [example_stored ''r1'' ''B'' ''mobile_camera'' 0 0])
             60000000 ''r2'' 60000001 (example_payload ''A'' ''mobile_camera'' 0))))
     61000000 ''r3'' 61000001 (example_payload ''A'' ''mobile_camera'' 0) =
   Inr (example_db [(example_stored ''r1'' ''B'' ''mobile_camera'' 0 0)\<lparr>confirmations := 3\<rparr>],
        \<lparr>success = True, message = ''Confirmed! 3 users have reported this.'',
         report_id = Some ''r1''\<rparr>)"
proof -
  let ?p = "example_payload ''A'' ''mobile_camera'' 0"
  let ?r1 = "example_stored ''r1'' ''B'' ''mobile_camera'' 0 0"
  have w: "haversine_distance exact 0 0 0 0 = Inr 0"
    by (rule haversine_same_point)
  have first: "create_report exact (example_db [?r1]) 60000000 ''r2'' 60000001 ?p =
      Inr (example_db [?r1\<lparr>confirmations := 2\<rparr>],
           \<lparr>success = True, message = confirmed_message 2, report_id = Some ''r1''\<rparr>)"
    by (simp add: create_report_def find_one_def find_to_list_def recent_query_def
        existing_query_def timedelta_minutes_def default_AppSettings_def bson_datetime_def
        merge_loop.simps w example_payload_def example_stored_def example_db_def
        get_settings_def)
  have second: "create_report exact (example_db [?r1\<lparr>confirmations := 2\<rparr>]) 61000000 ''r3''
      61000001 ?p =
      Inr (example_db [?r1\<lparr>confirmations := 3\<rparr>],
           \<lparr>success = True, message = confirmed_message 3, report_id = Some ''r1''\<rparr>)"
    by (simp add: create_report_def find_one_def find_to_list_def recent_query_def
        existing_query_def timedelta_minutes_def default_AppSettings_def bson_datetime_def
        merge_loop.simps w example_payload_def example_stored_def example_db_def
        get_settings_def)
  show ?thesis
    unfolding first by (simp add: second confirmed_message_def str_int_def str_nat.simps
        digit_char_def)
qed

text \<open>
  At an elapsed time of exactly \<open>rate_limit_minutes\<close> the query still matches
  (\<^verbatim>\<open>$gte\<close>) and the wait time is 0.
\<close>

lemma wait_zero_at_boundary:
  "create_report exact (example_db [example_stored ''r1'' ''A'' ''mobile_camera'' 0 0]) 300000000
       ''r2'' 300000001 (example_payload ''A'' ''mobile_camera'' 0) =
     Inr (example_db [example_stored ''r1'' ''A'' ''mobile_camera'' 0 0],
          \<lparr>success = False,
           message = ''Please wait 0 more minutes before reporting another mobile camera'',
           report_id = None\<rparr>)"
  by (simp add: create_report_def find_one_def recent_query_def timedelta_minutes_def
      default_AppSettings_def example_payload_def example_stored_def wait_time_elapsed
      elapsed_minutes_def wait_message_def str_int_def str_nat.simps digit_char_def
      replace_underscore_def bson_datetime_def)

subsection \<open>Duplicate merging\<close>

text \<open>
  Claim C1, as the code has it. In a store whose report ids are distinct, when the submitter
  is not rate-limited and, among the first 100 candidates (stored reports of the same type,
  active, not expired, created within the duplicate window, in the order of the collection),
  \<open>m\<close> is the first whose computed distance is within \<open>duplicate_radius_meters\<close>, the
  distance of every candidate before it having been computed and found beyond the radius,
  the call answers \<open>success = True\<close> with the id of \<open>m\<close> and the message for
  \<open>confirmations m + 1\<close>; afterwards the stored report with that id is \<open>m\<close> with its
  confirmation count one higher, and the ids of the stored reports are the same list as
  before, so nothing was inserted.
\<close>

theorem duplicate_merged_among_first_100:
  assumes no_limit: "\<forall>d\<in>set (reports db). \<not> recent_query report now (get_settings db) d"
    and first: "candidates db now report = pre @ m # rest"
    and before: "\<forall>e\<in>set pre. beyond_radius fp (get_settings db) report e"
    and near: "within_radius fp (get_settings db) report m"
    and ids: "distinct (map id' (reports db))"
  shows "m \<in> set (reports db) \<and> existing_query report now (get_settings db) m \<and>
    (\<exists>db'.
      create_report fp db now new_id created report =
        Inr (db', \<lparr>success = True, message = confirmed_message (confirmations m + 1),
                   report_id = Some (id' m)\<rparr>) \<and>
      List.find (\<lambda>d. id' d = id' m) (reports db') = Some (m\<lparr>confirmations := confirmations m + 1\<rparr>) \<and>
      map id' (reports db') = map id' (reports db))"
proof -
  from first have "m \<in> set (candidates db now report)" by simp
  from candidates_setD [OF this] have s: "m \<in> set (reports db)"
    and q: "existing_query report now (get_settings db) m" by simp_all
  have "List.find (\<lambda>d. id' d = id' m) (update_one_inc_confirmations (id' m) (reports db)) =
      Some (m\<lparr>confirmations := confirmations m + 1\<rparr>)"
    by (simp add: find_update_one_inc find_by_id_distinct [OF ids s])
  with s q create_report_merged [OF no_limit first before near, where new_id = new_id
      and created = created]
  show ?thesis by simp
qed

text \<open>An instance: a second submitter confirms the one stored report.\<close>

theorem duplicate_merged_among_first_100_witness:
  "\<exists>db'. create_report exact (example_db [example_stored ''r1'' ''B'' ''mobile_camera'' 0 0])
        60000000 ''r2'' 60000001 (example_payload ''A'' ''mobile_camera'' 0) =
      Inr (db', \<lparr>success = True, message = ''Confirmed! 2 users have reported this.'',
                 report_id = Some ''r1''\<rparr>) \<and>
     List.find (\<lambda>d. id' d = ''r1'') (reports db') =
       Some ((example_stored ''r1'' ''B'' ''mobile_camera'' 0 0)\<lparr>confirmations := 2\<rparr>) \<and>
     map id' (reports db') = [''r1'']"
proof -
  let ?r1 = "example_stored ''r1'' ''B'' ''mobile_camera'' 0 0"
  let ?db = "example_db [?r1]"
  let ?p = "example_payload ''A'' ''mobile_camera'' 0"
  have h1: "\<forall>d\<in>set (reports ?db). \<not> recent_query ?p 60000000 (get_settings ?db) d"
    by (simp add: recent_query_def example_payload_def example_stored_def)
  have h2: "candidates ?db 60000000 ?p = [] @ ?r1 # []"
    by (simp add: candidates_def find_to_list_def existing_query_def example_payload_def
        example_stored_def default_AppSettings_def timedelta_minutes_def bson_datetime_def)
  have h3: "\<forall>e\<in>set []. beyond_radius exact (get_settings ?db) ?p e"
    by simp
  have h4: "within_radius exact (get_settings ?db) ?p ?r1"
    by (simp add: same_point_within)
  have h5: "distinct (map id' (reports ?db))"
    by simp
  from duplicate_merged_among_first_100 [OF h1 h2 h3 h4 h5, of "''r2''" 60000001]
  show ?thesis
    by (simp add: confirmed_message_def str_int_def str_nat.simps digit_char_def
        example_stored_def)
qed

text \<open>
  Without the bound of 100 the statement fails. In the store of 101 candidates the report at
  the submitted coordinate is the 101st: the submitter is not rate-limited and that report
  is active, not expired, of the same type and inside the window and the radius, yet the
  call answers with the new id and stores one more report.
\<close>

theorem near_report_beyond_first_100_not_merged:
  "find_one (recent_query (example_payload ''A'' ''mobile_camera'' 0) 60000000
       (get_settings example_crowded_db)) (reports example_crowded_db) = None \<and>
   example_near \<in> set (reports example_crowded_db) \<and>
   existing_query (example_payload ''A'' ''mobile_camera'' 0) 60000000
     (get_settings example_crowded_db) example_near \<and>
   within_radius exact (get_settings example_crowded_db)
     (example_payload ''A'' ''mobile_camera'' 0) example_near \<and>
   id' example_near = ''near'' \<and>
   create_report exact example_crowded_db 60000000 ''new'' 60000000
       (example_payload ''A'' ''mobile_camera'' 0) =
     Inr (example_db (map example_far [0..<100] @
            [example_near,
             \<lparr>latitude = 0, longitude = 0, report_type = ''mobile_camera'', user_id = ''A'',
              id' = ''new'', confirmations = 1, created_at = 60000000,
              expires_at = 4560000000, is_active = True\<rparr>]),
          \<lparr>success = True, message = ''Reported. Thanks!'', report_id = Some ''new''\<rparr>)"
proof -
  let ?p = "example_payload ''A'' ''mobile_camera'' 0"
  have n: "find_one (recent_query ?p 60000000 (get_settings example_crowded_db))
      (reports example_crowded_db) = None"
    using crowded_no_limit by (simp add: find_one_None_iff)
  have b: "\<forall>e\<in>set (candidates example_crowded_db 60000000 ?p).
      beyond_radius exact (get_settings example_crowded_db) ?p e"
    unfolding crowded_first_candidates by (rule crowded_first_100)
  have q: "existing_query ?p 60000000 (get_settings example_crowded_db) example_near"
    by (simp add: existing_query_def example_crowded_db_def example_near_def example_payload_def
        example_stored_def default_AppSettings_def timedelta_minutes_def bson_datetime_def)
  have w: "within_radius exact (get_settings example_crowded_db) ?p example_near"
    by (simp add: example_crowded_db_def example_near_def same_point_within)
  have i: "id' example_near = ''near''"
    by (simp add: example_near_def example_stored_def)
  have m: "example_near \<in> set (reports example_crowded_db)"
    by (simp add: example_crowded_db_def)
  have r: "create_report exact example_crowded_db 60000000 ''new'' 60000000 ?p =
     Inr (example_db (map example_far [0..<100] @
            [example_near,
             \<lparr>latitude = 0, longitude = 0, report_type = ''mobile_camera'', user_id = ''A'',
              id' = ''new'', confirmations = 1, created_at = 60000000,
              expires_at = 4560000000, is_active = True\<rparr>]),
          \<lparr>success = True, message = ''Reported. Thanks!'', report_id = Some ''new''\<rparr>)"
    using create_report_created [OF crowded_no_limit b, of "''new''" 60000000]
    by (simp add: example_crowded_db_def report_obj_def bson_document_def bson_datetime_def
        example_payload_def ttl_minutes_def timedelta_minutes_def default_AppSettings_def)
  from n m q w i r show ?thesis by simp
qed

text \<open>
  Claim C9. In a store whose report ids are distinct (ids are \<^verbatim>\<open>uuid4\<close> values, and
  \<open>create_report_ids_distinct\<close> shows that a fresh id keeps them distinct), a call that
  merges, into the first candidate \<open>m\<close> within the radius, returns the database with one
  change: \<open>m\<close> has its \<open>confirmations\<close> one higher. Every other field of \<open>m\<close>, every
  other stored report, the cameras and the settings are the same; in particular no
  \<open>expires_at\<close> changes. By \<open>create_report_cases\<close> every call that merges is of this
  form.
\<close>

theorem merge_changes_only_confirmations:
  assumes no_limit: "\<forall>d\<in>set (reports db). \<not> recent_query report now (get_settings db) d"
    and first: "candidates db now report = pre @ m # rest"
    and before: "\<forall>e\<in>set pre. beyond_radius fp (get_settings db) report e"
    and near: "within_radius fp (get_settings db) report m"
    and ids: "distinct (map id' (reports db))"
  shows "create_report fp db now new_id created report =
      Inr (db\<lparr>reports :=
                 map (\<lambda>d. if d = m then d\<lparr>confirmations := confirmations d + 1\<rparr> else d)
                   (reports db)\<rparr>,
           \<lparr>success = True, message = confirmed_message (confirmations m + 1),
            report_id = Some (id' m)\<rparr>) \<and>
    map expires_at
      (map (\<lambda>d. if d = m then d\<lparr>confirmations := confirmations d + 1\<rparr> else d) (reports db)) =
      map expires_at (reports db)"
proof -
  from first have "m \<in> set (candidates db now report)" by simp
  from candidates_setD [OF this] have s: "m \<in> set (reports db)" by simp
  have e: "map expires_at (map (\<lambda>d. if d = m then d\<lparr>confirmations := confirmations d + 1\<rparr> else d)
      (reports db)) = map expires_at (reports db)"
    by (induction "reports db") auto
  from create_report_merged [OF no_limit first before near, where new_id = new_id
      and created = created] e
  show ?thesis
    by (simp add: update_one_inc_distinct [OF ids s])
qed

text \<open>
  An instance: of two stored reports the second is within the radius; it alone is changed.
\<close>

theorem merge_changes_only_confirmations_witness:
  "create_report exact
      (example_db [example_stored ''r1'' ''B'' ''mobile_camera'' 90 0,
                   example_stored ''r2'' ''C'' ''mobile_camera'' 0 0])
      60000000 ''r3'' 60000001 (example_payload ''A'' ''mobile_camera'' 0) =
     Inr (example_db [example_stored ''r1'' ''B'' ''mobile_camera'' 90 0,
                      (example_stored ''r2'' ''C'' ''mobile_camera'' 0 0)\<lparr>confirmations := 2\<rparr>],
          \<lparr>success = True, message = ''Confirmed! 2 users have reported this.'',
           report_id = Some ''r2''\<rparr>) \<and>
   expires_at ((example_stored ''r2'' ''C'' ''mobile_camera'' 0 0)\<lparr>confirmations := 2\<rparr>) =
     expires_at (example_stored ''r2'' ''C'' ''mobile_camera'' 0 0)"
proof -
  let ?r1 = "example_stored ''r1'' ''B'' ''mobile_camera'' 90 0"
  let ?r2 = "example_stored ''r2'' ''C'' ''mobile_camera'' 0 0"
  let ?db = "example_db [?r1, ?r2]"
  let ?p = "example_payload ''A'' ''mobile_camera'' 0"
  have h1: "\<forall>d\<in>set (reports ?db). \<not> recent_query ?p 60000000 (get_settings ?db) d"
    by (simp add: recent_query_def example_payload_def example_stored_def)
  have h2: "candidates ?db 60000000 ?p = [?r1] @ ?r2 # []"
    by (simp add: candidates_def find_to_list_def existing_query_def example_payload_def
        example_stored_def default_AppSettings_def timedelta_minutes_def bson_datetime_def)
  have h3: "\<forall>e\<in>set [?r1]. beyond_radius exact (get_settings ?db) ?p e"
    by (simp add: quarter_beyond)
  have h4: "within_radius exact (get_settings ?db) ?p ?r2"
    by (simp add: same_point_within)
  have h5: "distinct (map id' (reports ?db))"
    by (simp add: example_stored_def)
  have ne: "?r1 \<noteq> ?r2"
    by (simp add: example_stored_def)
  from merge_changes_only_confirmations [OF h1 h2 h3 h4 h5, of "''r3''" 60000001]
  show ?thesis
    using ne
    by (simp add: confirmed_message_def str_int_def str_nat.simps digit_char_def)
      (simp add: example_stored_def)
qed

text \<open>
  The duplicate check looks at the first 100 candidates only. When the submitter is not
  rate-limited, the distance of each of the first 100 candidates is computed and found
  beyond the radius, and a candidate \<open>e\<close> after the first 100 is within it, the call does
  not merge: it appends a new report and answers with the new id, and \<open>e\<close> is stored as
  it was.
\<close>

lemma merge_check_limited_to_100:
  assumes no_limit: "\<forall>d\<in>set (reports db). \<not> recent_query report now (get_settings db) d"
    and first: "\<forall>e\<in>set (take 100 (filter (existing_query report now (get_settings db)) (reports db))).
                  beyond_radius fp (get_settings db) report e"
    and later: "e \<in> set (drop 100 (filter (existing_query report now (get_settings db)) (reports db)))"
    and close: "within_radius fp (get_settings db) report e"
  shows "\<exists>db'. create_report fp db now new_id created report =
       Inr (db', \<lparr>success = True, message = ''Reported. Thanks!'', report_id = Some new_id\<rparr>) \<and>
     length (reports db') = Suc (length (reports db)) \<and> e \<in> set (reports db')"
proof -
  from later have stored: "e \<in> set (reports db)"
    by (auto dest: in_set_dropD)
  from first have "\<forall>e\<in>set (candidates db now report). beyond_radius fp (get_settings db) report e"
    by (simp add: candidates_def find_to_list_def)
  from create_report_created [OF no_limit this, of new_id created] stored
  show ?thesis by simp
qed

text \<open>
  Claim C10 fails where the distance of one of those candidates cannot be computed. When the
  submitter is not rate-limited and the loop reaches a candidate \<open>c\<close> for which
  \<^verbatim>\<open>a\<close> or \<^verbatim>\<open>1 - a\<close> is negative, every candidate before it being beyond the radius,
  \<^verbatim>\<open>math.sqrt\<close> raises and the request ends with \<^verbatim>\<open>ValueError\<close>: no record is created,
  whatever the candidates after \<open>c\<close> are.
\<close>

theorem duplicate_check_raises:
  assumes no_limit: "\<forall>d\<in>set (reports db). \<not> recent_query report now (get_settings db) d"
    and reached: "candidates db now report = pre @ c # rest"
    and before: "\<forall>e\<in>set pre. beyond_radius fp (get_settings db) report e"
    and domain: "haversine_a fp (latitude report) (longitude report) (latitude c) (longitude c) < 0 \<or>
      f_sub fp 1 (haversine_a fp (latitude report) (longitude report) (latitude c) (longitude c)) < 0"
  shows "create_report fp db now new_id created report = Inl ValueError"
proof -
  from domain have "haversine_distance fp (latitude report) (longitude report)
      (latitude c) (longitude c) = Inl ValueError"
    by (simp add: haversine_domain_error)
  from create_report_raises [OF no_limit reached before this] show ?thesis .
qed

text \<open>
  An instance: the payload at latitude 8, longitude 0, and the stored report at its
  antipode, in the arithmetic whose addition errs upward: the exact \<^verbatim>\<open>a\<close> is 1 and the
  computed one exceeds it.
\<close>

lemma haversine_a_antipode:
  "haversine_a rounding_up 8 0 (- 8) 180 = 1 + 1 / 2 ^ 52"
proof -
  have e1: "radians (- 8 - 8) / 2 = - radians 8" by (simp add: radians_def)
  have e2: "radians (- 8) = - radians 8" by (simp add: radians_def)
  have e3: "radians (180 - 0) / 2 = pi / 2" by (simp add: radians_def)
  have "haversine_a rounding_up 8 0 (- 8) 180 =
      ((sin (radians (- 8 - 8) / 2))\<^sup>2 +
        cos (radians 8) * cos (radians (- 8)) * (sin (radians (180 - 0) / 2))\<^sup>2) * (1 + 1 / 2 ^ 52)"
    by (simp add: haversine_a_def rounding_up_def exact_def)
  also have "(sin (radians (- 8 - 8) / 2))\<^sup>2 +
        cos (radians 8) * cos (radians (- 8)) * (sin (radians (180 - 0) / 2))\<^sup>2 =
      (sin (radians 8))\<^sup>2 + (cos (radians 8))\<^sup>2"
    unfolding e1 e2 e3 by (simp add: power2_eq_square)
  finally show ?thesis by simp
qed

theorem duplicate_check_raises_witness:
  "create_report rounding_up (example_db [antipode_stored]) 60000000 ''new'' 60000000
     antipode_payload = Inl ValueError"
proof -
  let ?db = "example_db [antipode_stored]"
  have h1: "\<forall>d\<in>set (reports ?db). \<not> recent_query antipode_payload 60000000 (get_settings ?db) d"
    by (simp add: recent_query_def antipode_payload_def antipode_stored_def)
  have h2: "candidates ?db 60000000 antipode_payload = [] @ antipode_stored # []"
    by (simp add: candidates_def find_to_list_def existing_query_def antipode_payload_def
        antipode_stored_def default_AppSettings_def timedelta_minutes_def bson_datetime_def)
  have h3: "\<forall>e\<in>set []. beyond_radius rounding_up (get_settings ?db) antipode_payload e"
    by simp
  have h4: "haversine_a rounding_up (latitude antipode_payload) (longitude antipode_payload)
        (latitude antipode_stored) (longitude antipode_stored) < 0 \<or>
      f_sub rounding_up 1 (haversine_a rounding_up (latitude antipode_payload)
        (longitude antipode_payload) (latitude antipode_stored) (longitude antipode_stored)) < 0"
    by (simp add: antipode_payload_def antipode_stored_def haversine_a_antipode)
      (simp add: rounding_up_def exact_def)
  from duplicate_check_raises [OF h1 h2 h3 h4] show ?thesis .
qed

subsection \<open>Creation of a new report\<close>

text \<open>
  Claim C3, as the code has it. When no stored report rate-limits the submitter and the
  distance of every candidate of the duplicate check (at most 100) is computed and found
  beyond the radius, the call appends one new report with \<open>confirmations = 1\<close> and answers
  \<open>success = True\<close> with the new report's id. The store keeps the dates of the report in
  whole milliseconds: \<open>expires_at\<close> is \<open>now + TTL\<close> without its microseconds, where the
  TTL is \<open>mobile_camera_ttl_minutes\<close> for the type \<^verbatim>\<open>mobile_camera\<close> and
  \<open>police_check_ttl_minutes\<close> otherwise, read from the settings document stored at the time
  of the call, or 75 and 52 when there is none.
\<close>

theorem new_report_persisted:
  assumes "\<forall>d\<in>set (reports db). \<not> recent_query report now (get_settings db) d"
    and "\<forall>e\<in>set (candidates db now report). beyond_radius fp (get_settings db) report e"
  shows "create_report fp db now new_id created report =
           Inr (db\<lparr>reports := reports db @
                  [\<lparr>latitude = latitude report, longitude = longitude report,
                    report_type = report_type report, user_id = user_id report,
                    id' = new_id, confirmations = 1,
                    created_at = bson_datetime created,
                    expires_at = bson_datetime (now + 60000000 *
                      (case settings_doc db of
                         None \<Rightarrow> if report_type report = ''mobile_camera'' then 75 else 52
                       | Some doc \<Rightarrow>
                           if report_type report = ''mobile_camera''
                           then mobile_camera_ttl_minutes doc
                           else police_check_ttl_minutes doc)),
                    is_active = True\<rparr>]\<rparr>,
                \<lparr>success = True, message = ''Reported. Thanks!'', report_id = Some new_id\<rparr>)"
  using create_report_created [OF assms, of new_id created]
  by (cases "settings_doc db")
    (simp_all add: report_obj_def bson_document_def ttl_minutes_def timedelta_minutes_def
      get_settings_def default_AppSettings_def mult.commute)

text \<open>
  An instance under stored settings: a police check, with one stored report a quarter of
  the equator away; the TTL is the 45 minutes of the settings document.
\<close>

theorem new_report_persisted_witness:
  "create_report exact (example_tuned_db [example_stored ''r1'' ''B'' ''police_check'' 90 0])
       1000000 ''r2'' 1000007 (example_payload ''A'' ''police_check'' 0) =
     Inr (example_tuned_db
            [example_stored ''r1'' ''B'' ''police_check'' 90 0,
             \<lparr>latitude = 0, longitude = 0, report_type = ''police_check'', user_id = ''A'',
              id' = ''r2'', confirmations = 1, created_at = 1000000,
              expires_at = 2701000000, is_active = True\<rparr>],
          \<lparr>success = True, message = ''Reported. Thanks!'', report_id = Some ''r2''\<rparr>)"
proof -
  let ?r1 = "example_stored ''r1'' ''B'' ''police_check'' 90 0"
  let ?db = "example_tuned_db [?r1]"
  let ?p = "example_payload ''A'' ''police_check'' 0"
  have h1: "\<forall>d\<in>set (reports ?db). \<not> recent_query ?p 1000000 (get_settings ?db) d"
    by (simp add: recent_query_def example_payload_def example_stored_def)
  have c: "candidates ?db 1000000 ?p = [?r1]"
    by (simp add: candidates_def find_to_list_def existing_query_def example_payload_def
        example_stored_def example_settings_def timedelta_minutes_def bson_datetime_def)
  have h2: "\<forall>e\<in>set (candidates ?db 1000000 ?p). beyond_radius exact (get_settings ?db) ?p e"
    unfolding c by (simp add: quarter_beyond)
  from new_report_persisted [OF h1 h2, of "''r2''" 1000007]
  show ?thesis
    by (simp add: example_payload_def bson_datetime_def example_settings_def)
qed

text \<open>
  The stored \<open>expires_at\<close> is not \<open>now + TTL\<close> when the clock reading has microseconds
  below the millisecond: a report submitted at 1000123 microseconds with a TTL of 75
  minutes is stored with \<open>expires_at = 4501000000\<close>.
\<close>

theorem stored_expiry_in_whole_milliseconds:
  "create_report exact (example_db []) 1000123 ''r1'' 1000456
       (example_payload ''A'' ''mobile_camera'' 0) =
     Inr (example_db
            [\<lparr>latitude = 0, longitude = 0, report_type = ''mobile_camera'', user_id = ''A'',
              id' = ''r1'', confirmations = 1, created_at = 1000000,
              expires_at = 4501000000, is_active = True\<rparr>],
          \<lparr>success = True, message = ''Reported. Thanks!'', report_id = Some ''r1''\<rparr>) \<and>
   (4501000000 :: int) \<noteq> 1000123 + 75 * 60000000"
  by (simp add: create_report_def find_one_def find_to_list_def insert_one_def
      merge_loop.simps ttl_minutes_def timedelta_minutes_def example_payload_def
      default_AppSettings_def report_obj_def bson_document_def bson_datetime_def Let_def)

subsection \<open>Payloads out of range\<close>




subsection \<open>Results of the proximity endpoints\<close>

text \<open>
  Claim C6, as the code has it. When \<^verbatim>\<open>get_nearby_cameras\<close> or \<^verbatim>\<open>get_nearby_reports\<close>
  returns a list, every entity in it has a computed haversine distance from the centre of
  at most \<open>radius_km * 1000\<close>, its \<open>distance_meters\<close> is that distance rounded to a whole
  number of metres (\<^verbatim>\<open>round\<close>), and the list is sorted in ascending, not strictly
  ascending, order of \<open>distance_meters\<close>.
\<close>

theorem nearby_within_radius_rounded_sorted:
  "(get_nearby_cameras fp db lat lon radius_km = Inr cams \<longrightarrow>
      (\<forall>e\<in>set cams.
         \<exists>d. haversine_distance fp lat lon (latitude (entity e)) (longitude (entity e)) = Inr d \<and>
             d \<le> f_mul fp radius_km 1000 \<and> distance_meters e = py_round d) \<and>
      sorted (map distance_meters cams)) \<and>
   (get_nearby_reports fp db now lat lon radius_km = Inr reps \<longrightarrow>
      (\<forall>e\<in>set reps.
         \<exists>d. haversine_distance fp lat lon (latitude (entity e)) (longitude (entity e)) = Inr d \<and>
             d \<le> f_mul fp radius_km 1000 \<and> distance_meters e = py_round d) \<and>
      sorted (map distance_meters reps))"
proof (intro conjI impI)
  assume c: "get_nearby_cameras fp db lat lon radius_km = Inr cams"
  from get_nearby_cameras_InrD [OF c] obtain loop where
    l: "cameras_loop fp lat lon radius_km
          (find_to_list (\<lambda>c. in_bbox (get_bounding_box fp lat lon radius_km)
                (latitude c) (longitude c) \<and> camera_is_active c) 1000 (cameras db)) = Inr loop"
    and r: "cams = sort_key distance_meters loop"
    by blast
  show "sorted (map distance_meters cams)"
    unfolding r by (rule sorted_sort_key)
  show "\<forall>e\<in>set cams.
         \<exists>d. haversine_distance fp lat lon (latitude (entity e)) (longitude (entity e)) = Inr d \<and>
             d \<le> f_mul fp radius_km 1000 \<and> distance_meters e = py_round d"
    unfolding r using cameras_loop_sound [OF l] by auto
next
  assume c: "get_nearby_reports fp db now lat lon radius_km = Inr reps"
  from get_nearby_reports_InrD [OF c] obtain loop where
    l: "reports_loop fp now lat lon radius_km
          (find_to_list (\<lambda>r. in_bbox (get_bounding_box fp lat lon radius_km)
                (latitude r) (longitude r) \<and> is_active r \<and> bson_datetime now < expires_at r)
             500 (reports db)) = Inr loop"
    and r: "reps = sort_key distance_meters loop"
    by blast
  show "sorted (map distance_meters reps)"
    unfolding r by (rule sorted_sort_key)
  show "\<forall>e\<in>set reps.
         \<exists>d. haversine_distance fp lat lon (latitude (entity e)) (longitude (entity e)) = Inr d \<and>
             d \<le> f_mul fp radius_km 1000 \<and> distance_meters e = py_round d"
    unfolding r using reports_loop_sound [OF l] by auto
qed

text \<open>
  An instance, centred on the north pole, in the arithmetic whose cosine does not vanish:
  two cameras at the pole.
\<close>

theorem nearby_within_radius_rounded_sorted_witness:
  "get_nearby_cameras exact_off_poles
     \<lparr>cameras = [example_polar_camera ''c1'', example_polar_camera ''c2''], reports = [],
      settings_doc = None\<rparr> 90 0 5 =
   Inr [\<lparr>entity = example_polar_camera ''c1'', distance_meters = 0\<rparr>,
        \<lparr>entity = example_polar_camera ''c2'', distance_meters = 0\<rparr>] \<and>
   haversine_distance exact_off_poles 90 0 90 0 = Inr 0 \<and>
   (0::real) \<le> f_mul exact_off_poles 5 1000 \<and> py_round 0 = 0 \<and>
   sorted (map distance_meters
       [\<lparr>entity = example_polar_camera ''c1'', distance_meters = 0\<rparr>,
        \<lparr>entity = example_polar_camera ''c2'', distance_meters = 0\<rparr>])"
  using nearby_within_radius_rounded_sorted [of exact_off_poles
      "\<lparr>cameras = [example_polar_camera ''c1'', example_polar_camera ''c2''], reports = [],
        settings_doc = None\<rparr>" 90 0 5
      "[\<lparr>entity = example_polar_camera ''c1'', distance_meters = 0\<rparr>,
        \<lparr>entity = example_polar_camera ''c2'', distance_meters = 0\<rparr>]"]
    nearby_cameras_at_pole haversine_at_pole
  by (simp add: exact_off_poles_ops py_round_def)

text \<open>
  The order is not strict: two cameras at the same place are both returned, with equal
  \<open>distance_meters\<close>.
\<close>

theorem nearby_not_strictly_ascending:
  "\<exists>cams. get_nearby_cameras exact
       \<lparr>cameras = [example_camera ''c1'' 0, example_camera ''c2'' 0], reports = [],
        settings_doc = None\<rparr> 0 0 5 = Inr cams \<and>
     \<not> sorted_wrt (<) (map distance_meters cams)"
  by (simp add: nearby_cameras_same_point)

subsection \<open>Expiry as a read-time filter\<close>

text \<open>
  Claim C7. The stored dates being whole milliseconds, as the store keeps them
  (\<open>create_report_dates_in_ms\<close>), every report in a list that \<^verbatim>\<open>get_nearby_reports\<close>
  returns is a stored report with \<open>now < expires_at\<close>; a stored report with
  \<open>expires_at \<le> now\<close> is in no result, whatever its \<open>is_active\<close> flag. The endpoint only
  reads: the model returns the list and no database.
\<close>

theorem expired_reports_filtered:
  assumes "get_nearby_reports fp db now lat lon radius_km = Inr result"
    and "dates_in_ms (reports db)"
  shows "(\<forall>e\<in>set result. entity e \<in> set (reports db) \<and> now < expires_at (entity e)) \<and>
         (\<forall>d\<in>set (reports db). expires_at d \<le> now \<longrightarrow> d \<notin> entity ` set result)"
proof -
  from get_nearby_reports_InrD [OF assms(1)] obtain loop where
    l: "reports_loop fp now lat lon radius_km
          (find_to_list (\<lambda>r. in_bbox (get_bounding_box fp lat lon radius_km)
                (latitude r) (longitude r) \<and> is_active r \<and> bson_datetime now < expires_at r)
             500 (reports db)) = Inr loop"
    and r: "result = sort_key distance_meters loop"
    by blast
  have *: "entity e \<in> set (reports db) \<and> now < expires_at (entity e)" if "e \<in> set result" for e
  proof -
    from that r have "e \<in> set loop" by simp
    from reports_loop_sound [OF l this] have "entity e \<in> set (find_to_list
        (\<lambda>r. in_bbox (get_bounding_box fp lat lon radius_km) (latitude r) (longitude r) \<and>
             is_active r \<and> bson_datetime now < expires_at r) 500 (reports db))"
      by simp
    from find_to_list_setD [OF this] have s: "entity e \<in> set (reports db)"
      and b: "bson_datetime now < expires_at (entity e)" by simp_all
    from assms(2) s have "expires_at (entity e) mod 1000 = 0"
      by (simp add: dates_in_ms_def)
    from bson_datetime_less_whole [OF this b] s show ?thesis by simp
  qed
  then show ?thesis by fastforce
qed

text \<open>
  An instance, centred on the north pole, in the arithmetic whose cosine does not vanish:
  of two active reports at the pole, the one that expired at the instant of the query is
  left out.
\<close>

theorem expired_reports_filtered_witness:
  "get_nearby_reports exact_off_poles
     (example_db [example_polar ''r1'' 0, example_polar ''r2'' 600000000])
     4500000000 90 0 5 =
     Inr [\<lparr>entity = example_polar ''r2'' 600000000,
           distance_meters = 0, expires_in_minutes = 10\<rparr>] \<and>
   is_active (example_polar ''r1'' 0) \<and>
   example_polar ''r1'' 0 \<notin>
     entity ` set [\<lparr>entity = example_polar ''r2'' 600000000,
           distance_meters = 0, expires_in_minutes = 10\<rparr>]"
proof -
  have h2: "dates_in_ms (reports (example_db [example_polar ''r1'' 0,
      example_polar ''r2'' 600000000]))"
    by (simp add: dates_in_ms_def example_polar_def example_stored_def)
  from expired_reports_filtered [OF nearby_reports_at_pole h2] show ?thesis
    using nearby_reports_at_pole by (simp add: example_polar_def example_stored_def)
qed

subsection \<open>The bounding box\<close>

text \<open>
  A lower bound on \<open>pi\<close> from the Maclaurin polynomial of the sine at 0.5227: that sine is
  below 1/2, the sine of \<open>pi / 6\<close>. It makes a degree of latitude on the sphere of radius
  6371000 m longer than the 111 km that \<^verbatim>\<open>get_bounding_box\<close> divides by.
\<close>

lemma sin_5227: "sin (5227 / 10000 :: real) < 1 / 2"
proof -
  let ?t = "5227 / 10000 :: real"
  have "\<bar>sin ?t - (\<Sum>m<5. sin_coeff m * ?t ^ m)\<bar> \<le> inverse (fact 5) * \<bar>?t\<bar> ^ 5"
    by (rule Maclaurin_sin_bound)
  moreover have "(\<Sum>m<5. sin_coeff m * ?t ^ m) = ?t - ?t ^ 3 / 6"
    by (simp add: eval_nat_numeral sin_coeff_Suc cos_coeff_Suc)
  moreover have "inverse (fact 5) * \<bar>?t\<bar> ^ 5 = ?t ^ 5 / 120"
    by (simp add: eval_nat_numeral)
  ultimately have "sin ?t \<le> ?t - ?t ^ 3 / 6 + ?t ^ 5 / 120"
    by linarith
  also have "\<dots> < 1 / 2" by (simp add: eval_nat_numeral)
  finally show ?thesis .
qed

lemma pi_lower_bound: "31362 / 10000 < pi"
proof -
  have "sin (5227 / 10000 :: real) < sin (pi / 6)"
    using sin_5227 by (simp add: sin_30)
  moreover have "- (pi / 2) \<le> 5227 / 10000" "5227 / 10000 \<le> pi / 2"
    "- (pi / 2) \<le> pi / 6" "pi / 6 \<le> pi / 2"
    using pi_ge_two by simp_all
  ultimately have "5227 / 10000 < pi / 6"
    by (simp add: sin_mono_less_eq)
  then show ?thesis by simp
qed

text \<open>
  For latitudes in \<open>[-90, 90]\<close> the local \<open>a\<close> of \<^verbatim>\<open>haversine_distance\<close> lies between the
  squared sine of half the latitude difference and 1, so the square roots are defined and
  the distance is at least the arc between the two parallels.
\<close>

lemma radians_diff: "radians (x - y) = radians x - radians y"
  by (simp add: radians_def left_diff_distrib)

lemma cos_radians_nonneg:
  assumes "- 90 \<le> lat" and "lat \<le> 90"
  shows "0 \<le> cos (radians lat)"
proof (rule cos_ge_zero)
  have "- 90 * (pi / 180) \<le> lat * (pi / 180)"
    using assms(1) by (intro mult_right_mono) simp_all
  then show "- (pi / 2) \<le> radians lat"
    by (simp add: radians_def)
  have "lat * (pi / 180) \<le> 90 * (pi / 180)"
    using assms(2) by (intro mult_right_mono) simp_all
  then show "radians lat \<le> pi / 2"
    by (simp add: radians_def)
qed

lemma haversine_a_bounds:
  assumes "- 90 \<le> lat1" "lat1 \<le> 90" "- 90 \<le> lat2" "lat2 \<le> 90"
  shows "(sin (radians (lat2 - lat1) / 2))\<^sup>2 \<le> haversine_a exact lat1 lon1 lat2 lon2"
    and "haversine_a exact lat1 lon1 lat2 lon2 \<le> 1"
proof -
  let ?p1 = "radians lat1" and ?p2 = "radians lat2"
  let ?u = "(sin (radians (lon2 - lon1) / 2))\<^sup>2"
  let ?s = "(sin (radians (lat2 - lat1) / 2))\<^sup>2"
  have a: "haversine_a exact lat1 lon1 lat2 lon2 = ?s + cos ?p1 * cos ?p2 * ?u"
    by (simp add: haversine_a_exact)
  have c: "0 \<le> cos ?p1 * cos ?p2"
    using assms by (simp add: cos_radians_nonneg)
  have u0: "0 \<le> ?u" by simp
  have u1: "?u \<le> 1"
    using sin_cos_squared_add [of "radians (lon2 - lon1) / 2"]
      zero_le_power2 [of "cos (radians (lon2 - lon1) / 2)"]
    by linarith
  from c u0 show "?s \<le> haversine_a exact lat1 lon1 lat2 lon2"
    unfolding a by simp
  have "cos ?p1 * cos ?p2 * ?u \<le> cos ?p1 * cos ?p2 * 1"
    using c u1 by (rule mult_left_mono [rotated])
  then have "haversine_a exact lat1 lon1 lat2 lon2 \<le> ?s + cos ?p1 * cos ?p2"
    unfolding a by simp
  also have "?s = (1 - cos (?p2 - ?p1)) / 2"
  proof -
    have e: "2 * ((?p2 - ?p1) / 2) = ?p2 - ?p1" by simp
    from cos_double_sin [of "(?p2 - ?p1) / 2", unfolded e] show ?thesis
      by (simp add: radians_diff)
  qed
  also have "(1 - cos (?p2 - ?p1)) / 2 + cos ?p1 * cos ?p2 = (1 + cos (?p1 + ?p2)) / 2"
    by (simp add: cos_diff cos_add field_simps)
  also have "\<dots> \<le> 1" by simp
  finally show "haversine_a exact lat1 lon1 lat2 lon2 \<le> 1" .
qed

lemma atan2_haversine_lower:
  assumes t0: "0 \<le> t" and t1: "t \<le> pi / 2" and sa: "(sin t)\<^sup>2 \<le> a" and a1: "a \<le> 1"
  shows "t \<le> atan2 (sqrt a) (sqrt (1 - a))"
proof (cases "a = 1")
  case True
  with t1 show ?thesis by (simp add: atan2_def)
next
  case False
  with a1 have lt: "a < 1" by simp
  have a0: "0 \<le> a" using sa by (rule order_trans [OF zero_le_power2])
  have s0: "0 \<le> sin t" using t0 t1 pi_ge_two by (intro sin_ge_zero) linarith+
  have sle: "sin t \<le> sqrt a" using sa by (rule real_le_rsqrt)
  have "t \<noteq> pi / 2"
  proof
    assume "t = pi / 2"
    then have "sin t = 1" by (simp only: sin_pi_half)
    with sa lt show False by simp
  qed
  with t1 have tl: "t < pi / 2" by simp
  have c0: "0 < cos t" using t0 tl by (intro cos_gt_zero_pi) linarith+
  then have "cos t = sqrt (1 - (sin t)\<^sup>2)"
    by (simp add: cos_squared_eq [symmetric] real_sqrt_unique)
  moreover have "sqrt (1 - a) \<le> sqrt (1 - (sin t)\<^sup>2)" using sa by simp
  ultimately have cge: "sqrt (1 - a) \<le> cos t" by simp
  have d0: "0 < sqrt (1 - a)" using lt by simp
  have "tan t \<le> sqrt a / sqrt (1 - a)"
    unfolding tan_def using a0 sle d0 cge by (intro frac_le) simp_all
  then have "arctan (tan t) \<le> arctan (sqrt a / sqrt (1 - a))"
    by (rule arctan_monotone')
  moreover have "arctan (tan t) = t" using t0 tl by (intro arctan_tan) linarith+
  ultimately show ?thesis using d0 by (simp add: atan2_def)
qed

text \<open>
  In exact arithmetic \<^verbatim>\<open>haversine_distance\<close> returns for all latitudes in \<open>[-90, 90]\<close>,
  the poles among them, and what it returns is at least the arc between the two parallels.
\<close>

lemma haversine_distance_lower:
  assumes "- 90 \<le> lat1" "lat1 \<le> 90" "- 90 \<le> lat2" "lat2 \<le> 90"
  shows "\<exists>d. haversine_distance exact lat1 lon1 lat2 lon2 = Inr d \<and>
             6371000 * \<bar>radians (lat2 - lat1)\<bar> \<le> d"
proof -
  let ?t = "\<bar>radians (lat2 - lat1)\<bar> / 2"
  let ?a = "haversine_a exact lat1 lon1 lat2 lon2"
  have "\<bar>lat2 - lat1\<bar> \<le> 180" using assms by simp
  then have "\<bar>lat2 - lat1\<bar> * (pi / 180) \<le> 180 * (pi / 180)"
    by (intro mult_right_mono) simp_all
  then have "\<bar>radians (lat2 - lat1)\<bar> \<le> pi"
    by (simp add: radians_def abs_mult)
  then have t1: "?t \<le> pi / 2" by simp
  have t0: "0 \<le> ?t" by simp
  have "(sin ?t)\<^sup>2 = (sin (radians (lat2 - lat1) / 2))\<^sup>2"
    by (cases "0 \<le> radians (lat2 - lat1)") (simp_all add: abs_if)
  with haversine_a_bounds(1) [OF assms] have sa: "(sin ?t)\<^sup>2 \<le> ?a" by simp
  have a1: "?a \<le> 1" by (rule haversine_a_bounds(2) [OF assms])
  have a0: "0 \<le> ?a" using sa by (rule order_trans [OF zero_le_power2])
  from atan2_haversine_lower [OF t0 t1 sa a1]
  have "?t \<le> atan2 (sqrt ?a) (sqrt (1 - ?a))" .
  then have "6371000 * \<bar>radians (lat2 - lat1)\<bar> \<le>
      6371000 * (2 * atan2 (sqrt ?a) (sqrt (1 - ?a)))"
    by simp
  moreover from a0 a1 have "haversine_distance exact lat1 lon1 lat2 lon2 =
      Inr (6371000 * (2 * atan2 (sqrt ?a) (sqrt (1 - ?a))))"
    by (simp add: haversine_exact)
  ultimately show ?thesis by simp
qed

lemma metres_per_degree: "111003 \<le> 6371000 * (pi / 180)"
  using pi_lower_bound by simp

text \<open>
  Claim C8, as the code has it: the latitude half. Take two points with latitudes in
  \<open>[-90, 90]\<close>, poles included, whose great-circle distance, the exact value of the
  haversine formula, is at most \<open>radius_km\<close> kilometres. Let the float operations of
  \<^verbatim>\<open>get_bounding_box\<close> be those of round-to-nearest arithmetic as far as the latitude
  needs them: the quotient \<open>radius_km / 111.0\<close> has a relative error of at most \<open>2 ^ -53\<close>,
  and a difference or sum of exact value beyond the latitude of the second point, itself
  a float, is not rounded past it. Then the latitude of the second point lies between
  \<open>min_lat\<close> and \<open>max_lat\<close> of the box around the first. Nothing is stated about the
  longitude.
\<close>

theorem bounding_box_contains_latitude:
  assumes "- 90 \<le> lat1" "lat1 \<le> 90" "- 90 \<le> lat2" "lat2 \<le> 90"
    and dist: "haversine_distance exact lat1 lon1 lat2 lon2 = Inr d"
    and near: "d \<le> radius_km * 1000"
    and quot: "radius_km / 111 * (1 - 1 / 2 ^ 53) \<le> f_div fp radius_km 111"
    and diff: "\<And>x. lat1 - x \<le> lat2 \<Longrightarrow> f_sub fp lat1 x \<le> lat2"
    and sum: "\<And>x. lat2 \<le> lat1 + x \<Longrightarrow> lat2 \<le> f_add fp lat1 x"
  shows "min_lat (get_bounding_box fp lat1 lon1 radius_km) \<le> lat2 \<and>
         lat2 \<le> max_lat (get_bounding_box fp lat1 lon1 radius_km)"
proof -
  let ?D = "\<bar>lat2 - lat1\<bar>"
  let ?L = "f_div fp radius_km 111"
  from haversine_distance_lower [OF assms(1-4), of lon1 lon2] dist
  have "6371000 * \<bar>radians (lat2 - lat1)\<bar> \<le> d" by simp
  with near have "6371000 * \<bar>radians (lat2 - lat1)\<bar> \<le> radius_km * 1000" by simp
  then have k: "6371000 * (pi / 180) * ?D \<le> radius_km * 1000"
    by (simp add: radians_def abs_mult)
  have "111003 * ?D \<le> 6371000 * (pi / 180) * ?D"
    using metres_per_degree by (intro mult_right_mono) simp_all
  with k have m: "111003 * ?D \<le> radius_km * 1000" by simp
  have "0 \<le> 111003 * ?D" by simp
  from this m have "0 \<le> radius_km * 1000" by (rule order_trans)
  then have r0: "0 \<le> radius_km" by simp
  have e: "(1::real) / 2 ^ 53 \<le> 3 / 111003" by simp
  have "111003 * ?D \<le> radius_km * 1000 * (111003 / 111000 * (1 - 1 / 2 ^ 53))"
  proof -
    have "(1::real) \<le> 111003 / 111000 * (1 - 1 / 2 ^ 53)"
      using e by simp
    then have "radius_km * 1000 * 1 \<le> radius_km * 1000 * (111003 / 111000 * (1 - 1 / 2 ^ 53))"
      using r0 by (intro mult_left_mono) simp_all
    with m show ?thesis by simp
  qed
  then have "?D \<le> radius_km / 111 * (1 - 1 / 2 ^ 53)" by simp
  with quot have d: "?D \<le> ?L" by simp
  then have "lat1 - ?L \<le> lat2" and "lat2 \<le> lat1 + ?L" by linarith+
  then have "f_sub fp lat1 ?L \<le> lat2" and "lat2 \<le> f_add fp lat1 ?L"
    by (simp_all add: diff sum)
  then show ?thesis
    by (simp add: get_bounding_box_def Let_def)
qed

lemma haversine_pole_equator: "haversine_distance exact 90 0 0 0 = Inr (6371000 * (pi / 2))"
proof -
  have "(sin (pi / 4))\<^sup>2 = 1 / 2"
    by (simp add: sin_45 power2_eq_square)
  then have a: "haversine_a exact 90 0 0 0 = 1 / 2"
    by (simp add: haversine_a_exact radians_def)
  have "atan2 (sqrt (1 / 2)) (sqrt (1 - 1 / 2)) = pi / 4"
    by (simp add: atan2_def arctan_one)
  then show ?thesis
    by (simp add: haversine_exact a)
qed

text \<open>
  An instance, centred on the north pole, in the arithmetic whose cosine does not vanish:
  from the pole to the equator, 10007 km, with a radius of 13000 km.
\<close>

theorem bounding_box_contains_latitude_witness:
  "haversine_distance exact 90 0 0 0 = Inr (6371000 * (pi / 2)) \<and>
   6371000 * (pi / 2) \<le> 13000 * 1000 \<and>
   min_lat (get_bounding_box exact_off_poles 90 0 13000) = 90 - 13000 / 111 \<and>
   max_lat (get_bounding_box exact_off_poles 90 0 13000) = 90 + 13000 / 111 \<and>
   min_lat (get_bounding_box exact_off_poles 90 0 13000) \<le> 0 \<and>
   0 \<le> max_lat (get_bounding_box exact_off_poles 90 0 13000)"
proof -
  have n: "6371000 * (pi / 2) \<le> 13000 * 1000"
    using pi_less_4 by simp
  have r: "- 90 \<le> (90::real)" "(90::real) \<le> 90" "- 90 \<le> (0::real)" "(0::real) \<le> 90"
    by simp_all
  have q: "13000 / 111 * (1 - 1 / 2 ^ 53) \<le> f_div exact_off_poles 13000 111"
    by (simp add: exact_off_poles_ops)
  have b: "min_lat (get_bounding_box exact_off_poles 90 0 13000) = 90 - 13000 / 111"
    "max_lat (get_bounding_box exact_off_poles 90 0 13000) = 90 + 13000 / 111"
    by (simp_all add: get_bounding_box_def exact_off_poles_ops Let_def)
  from bounding_box_contains_latitude [of 90 0 0 0 "6371000 * (pi / 2)" 13000 exact_off_poles,
      OF r haversine_pole_equator n q]
  have "min_lat (get_bounding_box exact_off_poles 90 0 13000) \<le> 0 \<and>
        0 \<le> max_lat (get_bounding_box exact_off_poles 90 0 13000)"
    by (simp add: exact_off_poles_ops)
  with b n haversine_pole_equator show ?thesis by simp
qed

text \<open>
  The longitude interval does not contain every point within the radius. On the parallel
  of 60 degrees the points at longitudes 0 and 180 are a sixth of a great circle apart,
  6672 km over the pole; the box of radius 9000 km around the first reaches to longitude
  162.2 only.
\<close>

lemma sqrt_quarter: "sqrt (1 / 4) = 1 / 2"
  by (rule real_sqrt_unique) (simp_all add: power2_eq_square)

lemma sqrt_three_quarters: "sqrt (3 / 4) = sqrt 3 / 2"
proof -
  have "sqrt 4 = 2" by (rule real_sqrt_unique) simp_all
  then show ?thesis by (simp add: real_sqrt_divide)
qed

lemma arctan_inverse_sqrt_3: "arctan (1 / sqrt 3) = pi / 6"
  by (rule arctan_unique) (simp_all add: tan_30)

lemma haversine_60_parallel:
  "haversine_distance exact 60 0 60 180 = Inr (6371000 * (pi / 3))"
proof -
  have a: "haversine_a exact 60 0 60 180 = 1 / 4"
    by (simp add: haversine_a_exact radians_def cos_60 power2_eq_square)
  have "atan2 (sqrt (1 / 4)) (sqrt (1 - 1 / 4)) = pi / 6"
    using arctan_inverse_sqrt_3
    by (simp add: sqrt_quarter sqrt_three_quarters atan2_def)
  then show ?thesis
    by (simp add: haversine_exact a)
qed

lemma bounding_box_60:
  "get_bounding_box exact 60 0 9000 =
     \<lparr>min_lat = 60 - 9000 / 111, max_lat = 60 + 9000 / 111,
      min_lon = - (18000 / 111), max_lon = 18000 / 111\<rparr>"
  by (simp add: get_bounding_box_def radians_def cos_60 Let_def)

theorem bounding_box_misses_longitude:
  "haversine_distance exact 60 0 60 180 = Inr (6371000 * (pi / 3)) \<and>
   6371000 * (pi / 3) \<le> 9000 * 1000 \<and>
   max_lon (get_bounding_box exact 60 0 9000) < 180 \<and>
   \<not> in_bbox (get_bounding_box exact 60 0 9000) 60 180"
proof -
  have "6371000 * (pi / 3) \<le> 9000 * 1000"
    using pi_less_4 by simp
  then show ?thesis
    by (simp add: bounding_box_60 haversine_60_parallel in_bbox_def)
qed

text \<open>
  Nor does the box wrap at the antimeridian: longitudes 180 and -180 on the equator are
  the same place, at distance 0, and the box of radius 1 km around the first does not
  contain the second.
\<close>

lemma bounding_box_antimeridian:
  "haversine_distance exact 0 180 0 (- 180) = Inr 0 \<and>
   get_bounding_box exact 0 180 1 =
     \<lparr>min_lat = - (1 / 111), max_lat = 1 / 111,
      min_lon = 180 - 1 / 111, max_lon = 180 + 1 / 111\<rparr> \<and>
   \<not> in_bbox (get_bounding_box exact 0 180 1) 0 (- 180)"
  by (simp add: haversine_exact haversine_a_exact radians_def atan2_def
      get_bounding_box_def in_bbox_def Let_def)

end
